theory Spec2Isabelle
  imports Complex_Main "HOL-Library.Word" "HOL-Library.Sublist"
begin

unbundle bit_operations_syntax

section \<open>The media player of mediaplayer.cpp\<close>

text \<open>
  The program is glue around the GStreamer and GLib libraries: \<open>main\<close> builds a pipeline
  and runs a loop over bus messages, \<open>pad_added_handler\<close> links the decoder to the
  converter when a pad appears. Both are modelled as functions from what the libraries
  answer (an environment) to the list of library calls the program makes, in order, each
  call with its arguments and, where the program reads it, its result. A pointer that may
  be \<open>NULL\<close> is an \<open>option\<close>.
\<close>

subsection \<open>Library types and constants\<close>

text \<open>
  The enumerations and macros below are declared in the GStreamer headers
  (\<open>gst/gst.h\<close>), which the program includes; they are written here with the values the
  headers give them.
\<close>

type_synonym gchar_ptr = "string option"

type_synonym GstObject = nat

type_synonym GstClockTime = "64 word"

definition GST_CLOCK_TIME_NONE :: GstClockTime where
  "GST_CLOCK_TIME_NONE = - 1"

type_synonym GstMessageType = "32 word"

definition GST_MESSAGE_UNKNOWN :: GstMessageType where "GST_MESSAGE_UNKNOWN = 0"
definition GST_MESSAGE_EOS :: GstMessageType where "GST_MESSAGE_EOS = push_bit 0 1"
definition GST_MESSAGE_ERROR :: GstMessageType where "GST_MESSAGE_ERROR = push_bit 1 1"
definition GST_MESSAGE_WARNING :: GstMessageType where "GST_MESSAGE_WARNING = push_bit 2 1"
definition GST_MESSAGE_INFO :: GstMessageType where "GST_MESSAGE_INFO = push_bit 3 1"
definition GST_MESSAGE_TAG :: GstMessageType where "GST_MESSAGE_TAG = push_bit 4 1"
definition GST_MESSAGE_BUFFERING :: GstMessageType where "GST_MESSAGE_BUFFERING = push_bit 5 1"
definition GST_MESSAGE_STATE_CHANGED :: GstMessageType where
  "GST_MESSAGE_STATE_CHANGED = push_bit 6 1"
definition GST_MESSAGE_STATE_DIRTY :: GstMessageType where
  "GST_MESSAGE_STATE_DIRTY = push_bit 7 1"
definition GST_MESSAGE_STEP_DONE :: GstMessageType where "GST_MESSAGE_STEP_DONE = push_bit 8 1"
definition GST_MESSAGE_CLOCK_PROVIDE :: GstMessageType where
  "GST_MESSAGE_CLOCK_PROVIDE = push_bit 9 1"
definition GST_MESSAGE_CLOCK_LOST :: GstMessageType where
  "GST_MESSAGE_CLOCK_LOST = push_bit 10 1"
definition GST_MESSAGE_NEW_CLOCK :: GstMessageType where "GST_MESSAGE_NEW_CLOCK = push_bit 11 1"
definition GST_MESSAGE_STRUCTURE_CHANGE :: GstMessageType where
  "GST_MESSAGE_STRUCTURE_CHANGE = push_bit 12 1"
definition GST_MESSAGE_STREAM_STATUS :: GstMessageType where
  "GST_MESSAGE_STREAM_STATUS = push_bit 13 1"
definition GST_MESSAGE_APPLICATION :: GstMessageType where
  "GST_MESSAGE_APPLICATION = push_bit 14 1"
definition GST_MESSAGE_ELEMENT :: GstMessageType where "GST_MESSAGE_ELEMENT = push_bit 15 1"
definition GST_MESSAGE_SEGMENT_START :: GstMessageType where
  "GST_MESSAGE_SEGMENT_START = push_bit 16 1"
definition GST_MESSAGE_SEGMENT_DONE :: GstMessageType where
  "GST_MESSAGE_SEGMENT_DONE = push_bit 17 1"
definition GST_MESSAGE_DURATION_CHANGED :: GstMessageType where
  "GST_MESSAGE_DURATION_CHANGED = push_bit 18 1"
definition GST_MESSAGE_LATENCY :: GstMessageType where "GST_MESSAGE_LATENCY = push_bit 19 1"
definition GST_MESSAGE_ASYNC_START :: GstMessageType where
  "GST_MESSAGE_ASYNC_START = push_bit 20 1"
definition GST_MESSAGE_ASYNC_DONE :: GstMessageType where
  "GST_MESSAGE_ASYNC_DONE = push_bit 21 1"
definition GST_MESSAGE_REQUEST_STATE :: GstMessageType where
  "GST_MESSAGE_REQUEST_STATE = push_bit 22 1"
definition GST_MESSAGE_STEP_START :: GstMessageType where
  "GST_MESSAGE_STEP_START = push_bit 23 1"
definition GST_MESSAGE_QOS :: GstMessageType where "GST_MESSAGE_QOS = push_bit 24 1"
definition GST_MESSAGE_PROGRESS :: GstMessageType where "GST_MESSAGE_PROGRESS = push_bit 25 1"
definition GST_MESSAGE_TOC :: GstMessageType where "GST_MESSAGE_TOC = push_bit 26 1"
definition GST_MESSAGE_RESET_TIME :: GstMessageType where
  "GST_MESSAGE_RESET_TIME = push_bit 27 1"
definition GST_MESSAGE_STREAM_START :: GstMessageType where
  "GST_MESSAGE_STREAM_START = push_bit 28 1"
definition GST_MESSAGE_NEED_CONTEXT :: GstMessageType where
  "GST_MESSAGE_NEED_CONTEXT = push_bit 29 1"
definition GST_MESSAGE_HAVE_CONTEXT :: GstMessageType where
  "GST_MESSAGE_HAVE_CONTEXT = push_bit 30 1"
definition GST_MESSAGE_EXTENDED :: GstMessageType where "GST_MESSAGE_EXTENDED = push_bit 31 1"
definition GST_MESSAGE_DEVICE_ADDED :: GstMessageType where
  "GST_MESSAGE_DEVICE_ADDED = GST_MESSAGE_EXTENDED + 1"
definition GST_MESSAGE_DEVICE_REMOVED :: GstMessageType where
  "GST_MESSAGE_DEVICE_REMOVED = GST_MESSAGE_EXTENDED + 2"
definition GST_MESSAGE_PROPERTY_NOTIFY :: GstMessageType where
  "GST_MESSAGE_PROPERTY_NOTIFY = GST_MESSAGE_EXTENDED + 3"
definition GST_MESSAGE_STREAM_COLLECTION :: GstMessageType where
  "GST_MESSAGE_STREAM_COLLECTION = GST_MESSAGE_EXTENDED + 4"
definition GST_MESSAGE_STREAMS_SELECTED :: GstMessageType where
  "GST_MESSAGE_STREAMS_SELECTED = GST_MESSAGE_EXTENDED + 5"
definition GST_MESSAGE_REDIRECT :: GstMessageType where
  "GST_MESSAGE_REDIRECT = GST_MESSAGE_EXTENDED + 6"
definition GST_MESSAGE_DEVICE_CHANGED :: GstMessageType where
  "GST_MESSAGE_DEVICE_CHANGED = GST_MESSAGE_EXTENDED + 7"
definition GST_MESSAGE_INSTANT_RATE_REQUEST :: GstMessageType where
  "GST_MESSAGE_INSTANT_RATE_REQUEST = GST_MESSAGE_EXTENDED + 8"
definition GST_MESSAGE_ANY :: GstMessageType where "GST_MESSAGE_ANY = - 1"

text \<open>
  Every message on a bus carries one enumerator of \<open>GstMessageType\<close> as its type; the
  masks \<open>GST_MESSAGE_UNKNOWN\<close>, \<open>GST_MESSAGE_EXTENDED\<close> and \<open>GST_MESSAGE_ANY\<close> are listed
  too, so that the list is the whole enumeration.
\<close>

definition GstMessageType_enumerators :: "GstMessageType list" where
  "GstMessageType_enumerators =
     [GST_MESSAGE_UNKNOWN, GST_MESSAGE_EOS, GST_MESSAGE_ERROR, GST_MESSAGE_WARNING,
      GST_MESSAGE_INFO, GST_MESSAGE_TAG, GST_MESSAGE_BUFFERING, GST_MESSAGE_STATE_CHANGED,
      GST_MESSAGE_STATE_DIRTY, GST_MESSAGE_STEP_DONE, GST_MESSAGE_CLOCK_PROVIDE,
      GST_MESSAGE_CLOCK_LOST, GST_MESSAGE_NEW_CLOCK, GST_MESSAGE_STRUCTURE_CHANGE,
      GST_MESSAGE_STREAM_STATUS, GST_MESSAGE_APPLICATION, GST_MESSAGE_ELEMENT,
      GST_MESSAGE_SEGMENT_START, GST_MESSAGE_SEGMENT_DONE, GST_MESSAGE_DURATION_CHANGED,
      GST_MESSAGE_LATENCY, GST_MESSAGE_ASYNC_START, GST_MESSAGE_ASYNC_DONE,
      GST_MESSAGE_REQUEST_STATE, GST_MESSAGE_STEP_START, GST_MESSAGE_QOS,
      GST_MESSAGE_PROGRESS, GST_MESSAGE_TOC, GST_MESSAGE_RESET_TIME, GST_MESSAGE_STREAM_START,
      GST_MESSAGE_NEED_CONTEXT, GST_MESSAGE_HAVE_CONTEXT, GST_MESSAGE_EXTENDED,
      GST_MESSAGE_DEVICE_ADDED, GST_MESSAGE_DEVICE_REMOVED, GST_MESSAGE_PROPERTY_NOTIFY,
      GST_MESSAGE_STREAM_COLLECTION, GST_MESSAGE_STREAMS_SELECTED, GST_MESSAGE_REDIRECT,
      GST_MESSAGE_DEVICE_CHANGED, GST_MESSAGE_INSTANT_RATE_REQUEST, GST_MESSAGE_ANY]"

text \<open>
  The test by which \<open>gst_bus_timed_pop_filtered\<close> (GStreamer's \<open>gstbus.c\<close>) decides
  whether a message of type \<open>t\<close> matches the mask \<open>types\<close>: a common bit, and an extended
  type only when the mask asks for extended types.
\<close>

definition GST_MESSAGE_TYPE_IS_EXTENDED :: "GstMessageType \<Rightarrow> bool" where
  "GST_MESSAGE_TYPE_IS_EXTENDED t = (t AND GST_MESSAGE_EXTENDED \<noteq> 0)"

definition gst_bus_filter_matches :: "GstMessageType \<Rightarrow> GstMessageType \<Rightarrow> bool" where
  "gst_bus_filter_matches types t =
     (t AND types \<noteq> 0 \<and>
      (\<not> GST_MESSAGE_TYPE_IS_EXTENDED t \<or> types AND GST_MESSAGE_EXTENDED \<noteq> 0))"

datatype GstState =
  GST_STATE_VOID_PENDING | GST_STATE_NULL | GST_STATE_READY | GST_STATE_PAUSED
  | GST_STATE_PLAYING

fun gst_element_state_get_name :: "GstState \<Rightarrow> string" where
  "gst_element_state_get_name GST_STATE_VOID_PENDING = ''VOID_PENDING''"
| "gst_element_state_get_name GST_STATE_NULL = ''NULL''"
| "gst_element_state_get_name GST_STATE_READY = ''READY''"
| "gst_element_state_get_name GST_STATE_PAUSED = ''PAUSED''"
| "gst_element_state_get_name GST_STATE_PLAYING = ''PLAYING''"

datatype GstStateChangeReturn =
  GST_STATE_CHANGE_FAILURE | GST_STATE_CHANGE_SUCCESS | GST_STATE_CHANGE_ASYNC
  | GST_STATE_CHANGE_NO_PREROLL

datatype GstFormat =
  GST_FORMAT_UNDEFINED | GST_FORMAT_DEFAULT | GST_FORMAT_BYTES | GST_FORMAT_TIME
  | GST_FORMAT_BUFFERS | GST_FORMAT_PERCENT

datatype GstSeekType = GST_SEEK_TYPE_NONE | GST_SEEK_TYPE_SET | GST_SEEK_TYPE_END

type_synonym GstSeekFlags = "32 word"

definition GST_SEEK_FLAG_FLUSH :: GstSeekFlags where
  "GST_SEEK_FLAG_FLUSH = push_bit 0 1"

datatype GstPadLinkReturn =
  GST_PAD_LINK_OK | GST_PAD_LINK_WRONG_HIERARCHY | GST_PAD_LINK_WAS_LINKED
  | GST_PAD_LINK_WRONG_DIRECTION | GST_PAD_LINK_NOFORMAT | GST_PAD_LINK_NOSCHED
  | GST_PAD_LINK_REFUSED

fun GstPadLinkReturn_value :: "GstPadLinkReturn \<Rightarrow> int" where
  "GstPadLinkReturn_value GST_PAD_LINK_OK = 0"
| "GstPadLinkReturn_value GST_PAD_LINK_WRONG_HIERARCHY = - 1"
| "GstPadLinkReturn_value GST_PAD_LINK_WAS_LINKED = - 2"
| "GstPadLinkReturn_value GST_PAD_LINK_WRONG_DIRECTION = - 3"
| "GstPadLinkReturn_value GST_PAD_LINK_NOFORMAT = - 4"
| "GstPadLinkReturn_value GST_PAD_LINK_NOSCHED = - 5"
| "GstPadLinkReturn_value GST_PAD_LINK_REFUSED = - 6"

definition GST_PAD_LINK_FAILED :: "GstPadLinkReturn \<Rightarrow> bool" where
  "GST_PAD_LINK_FAILED ret =
     (GstPadLinkReturn_value ret < GstPadLinkReturn_value GST_PAD_LINK_OK)"

text \<open>
  Caps are a sequence of structures, each with a media-type name. The three accessors
  below are library functions; on an argument they do not accept (\<open>NULL\<close>, or an index
  past the end) they follow the libraries' argument checks (\<open>g_return_val_if_fail\<close>),
  which report the call and return \<open>NULL\<close> or \<open>FALSE\<close>.
\<close>

datatype GstStructure = GstStructure (structure_name: string)

type_synonym GstCaps = "GstStructure list"

fun gst_caps_get_structure :: "GstCaps option \<Rightarrow> nat \<Rightarrow> GstStructure option" where
  "gst_caps_get_structure None i = None"
| "gst_caps_get_structure (Some caps) i = (if i < length caps then Some (caps ! i) else None)"

fun gst_structure_get_name :: "GstStructure option \<Rightarrow> gchar_ptr" where
  "gst_structure_get_name None = None"
| "gst_structure_get_name (Some s) = Some (structure_name s)"

fun g_str_has_prefix :: "gchar_ptr \<Rightarrow> gchar_ptr \<Rightarrow> bool" where
  "g_str_has_prefix (Some str) (Some pre) = (take (length pre) str = pre)"
| "g_str_has_prefix _ _ = False"

subsection \<open>The program's data and its calls\<close>

text \<open>\<open>CustomData\<close> (lines 12-19): five element pointers.\<close>

record CustomData =
  pipeline :: "GstObject option"
  source :: "GstObject option"
  videoconvert :: "GstObject option"
  videosink :: "GstObject option"
  filter_elem :: "GstObject option"

text \<open>
  A pad as the handler sees it: its name (\<open>GST_PAD_NAME\<close>) and what
  \<open>gst_pad_get_current_caps\<close> returns for it (\<open>NULL\<close> when the pad has no current caps).
\<close>

record GstPad =
  pad_name :: string
  current_caps :: "GstCaps option"

text \<open>
  A bus message, with what the program reads from it: its type, its source object and
  that object's name, the parsed error (\<open>err->message\<close>, \<open>debug_info\<close>) and the parsed
  state change.
\<close>

record GstMessage =
  msg_type :: GstMessageType
  msg_src :: GstObject
  msg_src_name :: string
  err_message :: string
  debug_info :: gchar_ptr
  old_state :: GstState
  new_state :: GstState
  pending_state :: GstState

text \<open>
  Objects the program holds a reference to: an element, the bus of an element
  (\<open>gst_element_get_bus\<close>), a static pad of an element (\<open>gst_element_get_static_pad\<close>),
  a pad handed to the callback.
\<close>

datatype gst_ref =
  Element "GstObject option"
  | Bus_of "GstObject option"
  | Static_pad "GstObject option" string
  | Pad GstPad

datatype callback = Pad_added_handler

text \<open>
  The calls. \<open>G_print\<close> and \<open>G_printerr\<close> carry the format string and its arguments; a
  call whose result the program uses carries the result as its last argument.
  \<open>G_signal_connect\<close> carries the element, the signal, the callback and the user data.
  \<open>Getchar\<close> is the read of one character that \<open>main\<close> makes before every \<open>return\<close>;
  it is taken to return. The rate of a seek, a \<open>double\<close> in the program, is a real number.
\<close>

datatype action =
  Gst_init
  | Gst_element_factory_make string string "GstObject option"
  | Gst_pipeline_new string "GstObject option"
  | G_printerr string "gchar_ptr list"
  | G_print string "gchar_ptr list"
  | Getchar
  | Gst_bin_add_many "GstObject option" "GstObject option list"
  | Gst_element_link "GstObject option" "GstObject option" bool
  | Gst_object_unref gst_ref
  | G_object_set "GstObject option" string string
  | G_signal_connect "GstObject option" string callback CustomData
  | Gst_element_set_state "GstObject option" GstState GstStateChangeReturn
  | Gst_element_get_bus "GstObject option"
  | Gst_bus_timed_pop_filtered gst_ref GstClockTime GstMessageType "GstMessage option"
  | Gst_message_parse_error GstMessage
  | G_clear_error
  | G_free gchar_ptr
  | Gst_element_seek "GstObject option" real GstFormat GstSeekFlags
      GstSeekType "64 word" GstSeekType "64 word" bool
  | Gst_message_parse_state_changed GstMessage
  | Gst_message_unref GstMessage
  | Gst_element_get_static_pad "GstObject option" string
  | Gst_pad_is_linked gst_ref bool
  | Gst_pad_get_current_caps GstPad "GstCaps option"
  | Gst_caps_get_structure "GstCaps option" nat "GstStructure option"
  | Gst_structure_get_name "GstStructure option" gchar_ptr
  | Gst_pad_link GstPad gst_ref GstPadLinkReturn
  | Gst_caps_unref GstCaps

subsection \<open>\<open>pad_added_handler\<close> (lines 159-204)\<close>

text \<open>
  A pad-added event: the name of the element that emitted it (\<open>GST_ELEMENT_NAME(src)\<close>),
  the new pad, and what \<open>gst_pad_link\<close> answers if the handler calls it.
\<close>

record pad_added =
  src_name :: string
  new_pad :: GstPad
  link_answer :: GstPadLinkReturn

text \<open>The code after the label \<open>exit\<close> (lines 197-203).\<close>

definition pad_added_exit :: "CustomData \<Rightarrow> GstCaps option \<Rightarrow> action list" where
  "pad_added_exit data new_pad_caps =
     (case new_pad_caps of None \<Rightarrow> [] | Some caps \<Rightarrow> [Gst_caps_unref caps])
     @ [Gst_object_unref (Static_pad (videoconvert data) ''sink'')]"

text \<open>
  The handler, given whether the converter's sink pad is linked when it runs. It returns
  its calls and whether that pad is linked afterwards: \<open>gst_pad_link\<close> links the two pads
  exactly when it answers \<open>GST_PAD_LINK_OK\<close>.
\<close>

definition pad_added_handler :: "pad_added \<Rightarrow> CustomData \<Rightarrow> bool \<Rightarrow> action list \<times> bool" where
  "pad_added_handler ev data linked =
     (let video_sink_pad = Static_pad (videoconvert data) ''sink'';
          entry =
            [Gst_element_get_static_pad (videoconvert data) ''sink'',
             G_print ''Received new pad %s from %s:\<newline>''
               [Some (pad_name (new_pad ev)), Some (src_name ev)],
             Gst_pad_is_linked video_sink_pad linked]
      in
        if linked then
          (entry @ [G_print ''We are already linked. Ignoring.\<newline>'' []]
             @ pad_added_exit data None,
           linked)
        else
          let new_pad_caps = current_caps (new_pad ev);
              new_pad_struct = gst_caps_get_structure new_pad_caps 0;
              new_pad_type = gst_structure_get_name new_pad_struct;
              check =
                [Gst_pad_get_current_caps (new_pad ev) new_pad_caps,
                 Gst_caps_get_structure new_pad_caps 0 new_pad_struct,
                 Gst_structure_get_name new_pad_struct new_pad_type]
          in
            if \<not> g_str_has_prefix new_pad_type (Some ''video/x-raw'') then
              (entry @ check
                 @ [G_print ''It has type '%s', which is not raw video. Ignoring.\<newline>''
                      [new_pad_type]]
                 @ pad_added_exit data new_pad_caps,
               linked)
            else
              let ret = link_answer ev in
                (entry @ check
                   @ [Gst_pad_link (new_pad ev) video_sink_pad ret,
                      if GST_PAD_LINK_FAILED ret then
                        G_print ''Type is '%s', but link failed.\<newline>'' [new_pad_type]
                      else
                        G_print ''Link succeeded (type '%s'). \<newline>'' [new_pad_type]]
                   @ pad_added_exit data new_pad_caps,
                 ret = GST_PAD_LINK_OK))"

text \<open>
  A sequence of pad-added events, each handled in the link state the previous one left
  (nothing else in the program links or unlinks the converter's sink pad).
\<close>

fun pad_added_events :: "CustomData \<Rightarrow> bool \<Rightarrow> pad_added list \<Rightarrow> action list \<times> bool" where
  "pad_added_events data linked [] = ([], linked)"
| "pad_added_events data linked (ev # evs) =
     (let (acts, linked') = pad_added_handler ev data linked;
          (rest, linked'') = pad_added_events data linked' evs
      in (acts @ rest, linked''))"

text \<open>
  The pad-added signal: when the element emits it, the library calls the connected
  callback with the new pad and the user data given at the connection.
\<close>

fun invoke :: "callback \<Rightarrow> pad_added \<Rightarrow> CustomData \<Rightarrow> bool \<Rightarrow> action list \<times> bool" where
  "invoke Pad_added_handler ev data linked = pad_added_handler ev data linked"

fun is_pad_link :: "action \<Rightarrow> bool" where
  "is_pad_link (Gst_pad_link p s r) = True"
| "is_pad_link _ = False"

fun is_pad_link_ok :: "action \<Rightarrow> bool" where
  "is_pad_link_ok (Gst_pad_link p s r) = (r = GST_PAD_LINK_OK)"
| "is_pad_link_ok _ = False"

subsection \<open>\<open>main\<close> (lines 31-156)\<close>

text \<open>
  The program's \<open>operator |\<close> on \<open>GstMessageType\<close> (lines 22-26): the bitwise or of the two
  values as \<open>int\<close>.
\<close>

definition operator_or :: "GstMessageType \<Rightarrow> GstMessageType \<Rightarrow> GstMessageType" where
  "operator_or lhs rhs = lhs OR rhs"

text \<open>
  What the libraries answer in one pass through the loop body: the result of setting the
  pipeline to playing, the message the bus wait returns (\<open>NULL\<close> or a message), and the
  result of \<open>gst_element_seek\<close> if the pass calls it.
\<close>

record iteration =
  set_state_ret :: GstStateChangeReturn
  popped :: "GstMessage option"
  seek_ok :: bool

text \<open>
  What the libraries answer to a whole run: the five created elements (\<open>NULL\<close> when
  creation fails), the results of the two static links, the passes through the loop, and
  the result of the last state change. A run whose list of passes is used up before the
  program returns is still in its loop: the bus wait has no time limit.
\<close>

record environment =
  made_source :: "GstObject option"
  made_videoconvert :: "GstObject option"
  made_filter :: "GstObject option"
  made_videosink :: "GstObject option"
  made_pipeline :: "GstObject option"
  link_convert_filter :: bool
  link_filter_sink :: bool
  iterations :: "iteration list"
  null_state_ret :: GstStateChangeReturn

text \<open>
  The \<open>switch\<close> on the message type (lines 109-144), given the value of \<open>terminate\<close>
  before it; it returns its calls and the value of \<open>terminate\<close> after it.
\<close>

definition parse_message ::
  "CustomData \<Rightarrow> GstMessage \<Rightarrow> bool \<Rightarrow> bool \<Rightarrow> action list \<times> bool" where
  "parse_message data msg seek_answer terminate =
     (if msg_type msg = GST_MESSAGE_ERROR then
        ([Gst_message_parse_error msg,
          G_printerr ''Error received from element %s: %s\<newline>''
            [Some (msg_src_name msg), Some (err_message msg)],
          G_printerr ''Debugging information: %s \<newline>''
            [case debug_info msg of Some d \<Rightarrow> Some d | None \<Rightarrow> Some ''none''],
          G_clear_error,
          G_free (debug_info msg)],
         True)
      else if msg_type msg = GST_MESSAGE_EOS then
        ([G_print ''End-Of-Stream reached.\<newline>'' [],
          Gst_element_seek (pipeline data) 1 GST_FORMAT_TIME GST_SEEK_FLAG_FLUSH
            GST_SEEK_TYPE_SET 0 GST_SEEK_TYPE_NONE GST_CLOCK_TIME_NONE seek_answer]
         @ (if \<not> seek_answer then [G_print ''Seek failed!\<newline>'' []] else []),
         False)
      else if msg_type msg = GST_MESSAGE_STATE_CHANGED then
        (if Some (msg_src msg) = pipeline data then
           [Gst_message_parse_state_changed msg,
            G_print ''Pipeline state changed from %s to %s:\<newline>''
              [Some (gst_element_state_get_name (old_state msg)),
               Some (gst_element_state_get_name (new_state msg))]]
         else [],
         terminate)
      else
        ([G_printerr ''Unexpected message received.\<newline>'' []], terminate))"

text \<open>
  One pass through the body of the \<open>do\<close> loop (lines 87-146). It ends either with
  \<open>return -1\<close> or at the loop's test, with a value of \<open>terminate\<close>.
\<close>

datatype body_exit = Body_return int | Body_end bool

definition loop_body :: "CustomData \<Rightarrow> bool \<Rightarrow> iteration \<Rightarrow> action list \<times> body_exit" where
  "loop_body data terminate it =
     (let ret = set_state_ret it;
          start = [Gst_element_set_state (pipeline data) GST_STATE_PLAYING ret]
      in
        if ret = GST_STATE_CHANGE_FAILURE then
          (start
             @ [G_printerr ''Unable to set pipeline to the playing state.\<newline>'' [],
                Gst_object_unref (Element (pipeline data)),
                Getchar],
           Body_return (- 1))
        else
          let bus = Bus_of (pipeline data);
              msg = popped it;
              listen =
                [Gst_element_get_bus (pipeline data),
                 Gst_bus_timed_pop_filtered bus GST_CLOCK_TIME_NONE
                   (operator_or (operator_or GST_MESSAGE_STATE_CHANGED GST_MESSAGE_ERROR)
                      GST_MESSAGE_EOS)
                   msg]
          in
            case msg of
              None \<Rightarrow> (start @ listen, Body_end terminate)
            | Some m \<Rightarrow>
                (let (parsed, terminate') = parse_message data m (seek_ok it) terminate
                 in (start @ listen @ parsed @ [Gst_message_unref m], Body_end terminate')))"

text \<open>
  The \<open>do ... while (!terminate)\<close> loop (lines 85-147) over the passes the environment
  provides.
\<close>

datatype loop_exit = Loop_return int | Loop_done | Loop_pending

fun video_playing_loop ::
  "CustomData \<Rightarrow> bool \<Rightarrow> iteration list \<Rightarrow> action list \<times> loop_exit" where
  "video_playing_loop data terminate [] = ([], Loop_pending)"
| "video_playing_loop data terminate (it # its) =
     (case loop_body data terminate it of
        (acts, Body_return c) \<Rightarrow> (acts, Loop_return c)
      | (acts, Body_end terminate') \<Rightarrow>
          if \<not> terminate' then
            (let (rest, ex) = video_playing_loop data terminate' its in (acts @ rest, ex))
          else (acts, Loop_done))"

datatype outcome = Returned int | Playing

definition create_elements :: "CustomData \<Rightarrow> action list" where
  "create_elements data =
     [Gst_init,
      Gst_element_factory_make ''uridecodebin'' ''source'' (source data),
      Gst_element_factory_make ''videoconvert'' ''videoconvert'' (videoconvert data),
      Gst_element_factory_make ''blurfilter'' ''blurfilter'' (filter_elem data),
      Gst_element_factory_make ''autovideosink'' ''videosink'' (videosink data),
      Gst_pipeline_new ''video-pipeline'' (pipeline data)]"

definition free_resources :: "CustomData \<Rightarrow> GstStateChangeReturn \<Rightarrow> action list" where
  "free_resources data r =
     [Gst_object_unref (Bus_of (pipeline data)),
      Gst_element_set_state (pipeline data) GST_STATE_NULL r,
      Gst_object_unref (Element (pipeline data)),
      Getchar]"

definition uri :: string where
  "uri = ''file:///C:/Change/to/Address/to/Repository/ContextVision/media/testvideo4.mp4''"

definition main :: "environment \<Rightarrow> action list \<times> outcome" where
  "main env =
     (let data =
            \<lparr>pipeline = made_pipeline env, source = made_source env,
             videoconvert = made_videoconvert env, videosink = made_videosink env,
             filter_elem = made_filter env\<rparr>;
          create = create_elements data
      in
        if pipeline data = None \<or> source data = None \<or> videosink data = None
           \<or> videoconvert data = None \<or> filter_elem data = None then
          (create @ [G_printerr ''All elements could not be created.\<newline>'' [], Getchar],
           Returned (- 1))
        else
          let add =
                [Gst_bin_add_many (pipeline data)
                   [source data, videoconvert data, filter_elem data, videosink data]];
              link1 =
                [Gst_element_link (videoconvert data) (filter_elem data)
                   (link_convert_filter env)]
          in
            if link_convert_filter env \<noteq> True then
              (create @ add @ link1
                 @ [G_printerr ''Elements could not be linked.\<newline>'' [],
                    Gst_object_unref (Element (pipeline data)),
                    Getchar],
               Returned (- 1))
            else
              let link2 =
                    [Gst_element_link (filter_elem data) (videosink data)
                       (link_filter_sink env)]
              in
                if link_filter_sink env \<noteq> True then
                  (create @ add @ link1 @ link2
                     @ [G_printerr ''Elements could not be linked.\<newline>'' [],
                        Gst_object_unref (Element (pipeline data)),
                        Getchar],
                   Returned (- 1))
                else
                  let connect =
                        [G_object_set (source data) ''uri'' uri,
                         G_signal_connect (source data) ''pad-added'' Pad_added_handler data];
                      setup = create @ add @ link1 @ link2 @ connect
                  in
                    case video_playing_loop data False (iterations env) of
                      (played, Loop_return c) \<Rightarrow> (setup @ played, Returned c)
                    | (played, Loop_pending) \<Rightarrow> (setup @ played, Playing)
                    | (played, Loop_done) \<Rightarrow>
                        (setup @ played @ free_resources data (null_state_ret env),
                         Returned 0))"

subsection \<open>Notions the properties use\<close>

text \<open>
  The negotiated media type of a pad: the name of the first structure of its current
  caps, as the handler reads it.
\<close>

definition pad_media_type :: "GstPad \<Rightarrow> gchar_ptr" where
  "pad_media_type p = gst_structure_get_name (gst_caps_get_structure (current_caps p) 0)"

text \<open>Concrete inputs: the five elements, a raw video pad, an audio pad, a pad without caps.\<close>

definition data0 :: CustomData where
  "data0 =
     \<lparr>pipeline = Some 5, source = Some 1, videoconvert = Some 2, videosink = Some 4,
      filter_elem = Some 3\<rparr>"

definition video_pad :: GstPad where
  "video_pad = \<lparr>pad_name = ''src_0'', current_caps = Some [GstStructure ''video/x-raw'']\<rparr>"

definition audio_pad :: GstPad where
  "audio_pad = \<lparr>pad_name = ''src_1'', current_caps = Some [GstStructure ''audio/x-raw'']\<rparr>"

definition capless_pad :: GstPad where
  "capless_pad = \<lparr>pad_name = ''src_0'', current_caps = None\<rparr>"

definition pad_event :: "GstPad \<Rightarrow> GstPadLinkReturn \<Rightarrow> pad_added" where
  "pad_event p r = \<lparr>src_name = ''source'', new_pad = p, link_answer = r\<rparr>"

text \<open>
  The mask \<open>main\<close> passes to the bus wait.
\<close>

definition bus_types :: GstMessageType where
  "bus_types =
     operator_or (operator_or GST_MESSAGE_STATE_CHANGED GST_MESSAGE_ERROR) GST_MESSAGE_EOS"

text \<open>
  A pass in which setting the pipeline to playing fails; a pass in which the bus wait
  returns a message of a given type; a pass that ends the run (one or the other of a
  failed state change and an error message).
\<close>

definition state_fails :: "iteration \<Rightarrow> bool" where
  "state_fails it = (set_state_ret it = GST_STATE_CHANGE_FAILURE)"

definition pops_type :: "GstMessageType \<Rightarrow> iteration \<Rightarrow> bool" where
  "pops_type ty it = (case popped it of None \<Rightarrow> False | Some m \<Rightarrow> msg_type m = ty)"

definition fatal :: "iteration \<Rightarrow> bool" where
  "fatal it = (state_fails it \<or> pops_type GST_MESSAGE_ERROR it)"

text \<open>
  A pass whose message, if any, is one the bus wait can return for the program's mask: it
  has an enumerator of \<open>GstMessageType\<close> as its type and passes the library's test.
\<close>

definition deliverable :: "iteration \<Rightarrow> bool" where
  "deliverable it =
     (case popped it of
        None \<Rightarrow> True
      | Some m \<Rightarrow>
          msg_type m \<in> set GstMessageType_enumerators
          \<and> gst_bus_filter_matches bus_types (msg_type m))"

text \<open>
  The element pointers \<open>main\<close> stores in its \<open>CustomData\<close>; all five created; all
  five created and both static links made.
\<close>

definition data_of :: "environment \<Rightarrow> CustomData" where
  "data_of env =
     \<lparr>pipeline = made_pipeline env, source = made_source env,
      videoconvert = made_videoconvert env, videosink = made_videosink env,
      filter_elem = made_filter env\<rparr>"

definition all_created :: "environment \<Rightarrow> bool" where
  "all_created env =
     (made_pipeline env \<noteq> None \<and> made_source env \<noteq> None \<and> made_videosink env \<noteq> None
      \<and> made_videoconvert env \<noteq> None \<and> made_filter env \<noteq> None)"

definition setup_ok :: "environment \<Rightarrow> bool" where
  "setup_ok env = (all_created env \<and> link_convert_filter env \<and> link_filter_sink env)"

text \<open>
  Kinds of calls: a seek; the seek to position zero on a given element (rate 1, time
  format, flush flag, start set to 0, no stop); a bus wait that returned a message of a
  given type; a link of two elements or two pads; a state change to playing that failed.
\<close>

definition is_seek :: "action \<Rightarrow> bool" where
  "is_seek a = (case a of Gst_element_seek p r f fl st s et e ok \<Rightarrow> True | _ \<Rightarrow> False)"

definition is_seek_to_start :: "GstObject option \<Rightarrow> action \<Rightarrow> bool" where
  "is_seek_to_start pl a =
     (case a of
        Gst_element_seek p r f fl st s et e ok \<Rightarrow>
          p = pl \<and> r = 1 \<and> f = GST_FORMAT_TIME \<and> fl = GST_SEEK_FLAG_FLUSH
          \<and> st = GST_SEEK_TYPE_SET \<and> s = 0 \<and> et = GST_SEEK_TYPE_NONE
          \<and> e = GST_CLOCK_TIME_NONE
      | _ \<Rightarrow> False)"

definition pop_returns :: "GstMessageType \<Rightarrow> action \<Rightarrow> bool" where
  "pop_returns ty a =
     (case a of
        Gst_bus_timed_pop_filtered b tm tys (Some m) \<Rightarrow> msg_type m = ty
      | _ \<Rightarrow> False)"

definition is_link :: "action \<Rightarrow> bool" where
  "is_link a =
     (case a of Gst_element_link x y r \<Rightarrow> True | Gst_pad_link p s r \<Rightarrow> True | _ \<Rightarrow> False)"

definition is_failed_play :: "action \<Rightarrow> bool" where
  "is_failed_play a =
     (case a of
        Gst_element_set_state p s r \<Rightarrow> s = GST_STATE_PLAYING \<and> r = GST_STATE_CHANGE_FAILURE
      | _ \<Rightarrow> False)"

text \<open>A bus wait, whatever it returned.\<close>

definition is_bus_wait :: "action \<Rightarrow> bool" where
  "is_bus_wait a =
     (case a of Gst_bus_timed_pop_filtered b tm ty mo \<Rightarrow> True | _ \<Rightarrow> False)"

text \<open>
  The calls of \<open>main\<close> before its loop when every step succeeds, and every call \<open>main\<close>
  can make outside its loop.
\<close>

definition setup_calls :: "environment \<Rightarrow> action list" where
  "setup_calls env =
     [Gst_init,
      Gst_element_factory_make ''uridecodebin'' ''source'' (made_source env),
      Gst_element_factory_make ''videoconvert'' ''videoconvert'' (made_videoconvert env),
      Gst_element_factory_make ''blurfilter'' ''blurfilter'' (made_filter env),
      Gst_element_factory_make ''autovideosink'' ''videosink'' (made_videosink env),
      Gst_pipeline_new ''video-pipeline'' (made_pipeline env),
      Gst_bin_add_many (made_pipeline env)
        [made_source env, made_videoconvert env, made_filter env, made_videosink env],
      Gst_element_link (made_videoconvert env) (made_filter env) True,
      Gst_element_link (made_filter env) (made_videosink env) True,
      G_object_set (made_source env) ''uri'' uri,
      G_signal_connect (made_source env) ''pad-added'' Pad_added_handler (data_of env)]"

definition outside_loop :: "environment \<Rightarrow> action list" where
  "outside_loop env =
     setup_calls env
     @ [G_printerr ''All elements could not be created.\<newline>'' [],
        Gst_element_link (made_videoconvert env) (made_filter env) False,
        Gst_element_link (made_filter env) (made_videosink env) False,
        G_printerr ''Elements could not be linked.\<newline>'' [],
        Gst_object_unref (Element (made_pipeline env)),
        Getchar]
     @ free_resources (data_of env) (null_state_ret env)"

text \<open>
  Concrete inputs for \<open>main\<close>: a message of a given type and source, a pass, an
  environment in which the setup succeeds, and three passes (an end-of-stream message, an
  error message, a failed state change).
\<close>

definition msg0 :: "GstMessageType \<Rightarrow> GstObject \<Rightarrow> GstMessage" where
  "msg0 ty src =
     \<lparr>msg_type = ty, msg_src = src, msg_src_name = ''source'',
      err_message = ''Resource not found.'', debug_info = None,
      old_state = GST_STATE_READY, new_state = GST_STATE_PAUSED,
      pending_state = GST_STATE_PLAYING\<rparr>"

definition pass :: "GstStateChangeReturn \<Rightarrow> GstMessage option \<Rightarrow> bool \<Rightarrow> iteration" where
  "pass r m sk = \<lparr>set_state_ret = r, popped = m, seek_ok = sk\<rparr>"

definition env0 :: "iteration list \<Rightarrow> environment" where
  "env0 its =
     \<lparr>made_source = Some 1, made_videoconvert = Some 2, made_filter = Some 3,
      made_videosink = Some 4, made_pipeline = Some 5, link_convert_filter = True,
      link_filter_sink = True, iterations = its,
      null_state_ret = GST_STATE_CHANGE_SUCCESS\<rparr>"

definition eos_pass :: "bool \<Rightarrow> iteration" where
  "eos_pass sk = pass GST_STATE_CHANGE_ASYNC (Some (msg0 GST_MESSAGE_EOS 1)) sk"

definition error_pass :: iteration where
  "error_pass = pass GST_STATE_CHANGE_ASYNC (Some (msg0 GST_MESSAGE_ERROR 1)) True"

definition failed_pass :: iteration where
  "failed_pass = pass GST_STATE_CHANGE_FAILURE None True"

section \<open>Properties\<close>

lemmas GstMessageType_defs =
  GST_MESSAGE_UNKNOWN_def GST_MESSAGE_EOS_def GST_MESSAGE_ERROR_def GST_MESSAGE_WARNING_def
  GST_MESSAGE_INFO_def GST_MESSAGE_TAG_def GST_MESSAGE_BUFFERING_def
  GST_MESSAGE_STATE_CHANGED_def GST_MESSAGE_STATE_DIRTY_def GST_MESSAGE_STEP_DONE_def
  GST_MESSAGE_CLOCK_PROVIDE_def GST_MESSAGE_CLOCK_LOST_def GST_MESSAGE_NEW_CLOCK_def
  GST_MESSAGE_STRUCTURE_CHANGE_def GST_MESSAGE_STREAM_STATUS_def GST_MESSAGE_APPLICATION_def
  GST_MESSAGE_ELEMENT_def GST_MESSAGE_SEGMENT_START_def GST_MESSAGE_SEGMENT_DONE_def
  GST_MESSAGE_DURATION_CHANGED_def GST_MESSAGE_LATENCY_def GST_MESSAGE_ASYNC_START_def
  GST_MESSAGE_ASYNC_DONE_def GST_MESSAGE_REQUEST_STATE_def GST_MESSAGE_STEP_START_def
  GST_MESSAGE_QOS_def GST_MESSAGE_PROGRESS_def GST_MESSAGE_TOC_def GST_MESSAGE_RESET_TIME_def
  GST_MESSAGE_STREAM_START_def GST_MESSAGE_NEED_CONTEXT_def GST_MESSAGE_HAVE_CONTEXT_def
  GST_MESSAGE_EXTENDED_def GST_MESSAGE_DEVICE_ADDED_def GST_MESSAGE_DEVICE_REMOVED_def
  GST_MESSAGE_PROPERTY_NOTIFY_def GST_MESSAGE_STREAM_COLLECTION_def
  GST_MESSAGE_STREAMS_SELECTED_def GST_MESSAGE_REDIRECT_def GST_MESSAGE_DEVICE_CHANGED_def
  GST_MESSAGE_INSTANT_RATE_REQUEST_def GST_MESSAGE_ANY_def


subsection \<open>The pad-added handler\<close>

lemma take_is_prefix_iff: "(take (length pre) s = pre) = prefix pre s"
proof
  assume h: "take (length pre) s = pre"
  have "s = take (length pre) s @ drop (length pre) s" by simp
  with h have "s = pre @ drop (length pre) s" by simp
  then show "prefix pre s" unfolding prefix_def by blast
next
  assume "prefix pre s"
  then show "take (length pre) s = pre" by (auto simp: prefix_def)
qed

lemma g_str_has_prefix_iff:
  "g_str_has_prefix t (Some pre) = (\<exists>s. t = Some s \<and> prefix pre s)"
  by (cases t) (simp_all add: take_is_prefix_iff)

lemma pad_link_iff:
  "list_ex is_pad_link (fst (pad_added_handler ev data linked)) =
     (\<not> linked \<and> g_str_has_prefix (pad_media_type (new_pad ev)) (Some ''video/x-raw''))"
  unfolding pad_added_handler_def pad_added_exit_def pad_media_type_def Let_def
  by (simp split: option.split)

text \<open>
  Claim C1. For every pad-added event, in either link state: when the new pad's
  negotiated media type does not begin with \<open>video/x-raw\<close>, the handler makes no
  \<open>gst_pad_link\<close> call; and when the handler makes a \<open>gst_pad_link\<close> call, the new pad has a
  media type and it begins with \<open>video/x-raw\<close>.
\<close>

theorem pad_added_links_only_raw_video:
  "(\<forall>t. pad_media_type (new_pad ev) = Some t \<and> \<not> prefix ''video/x-raw'' t \<longrightarrow>
        \<not> list_ex is_pad_link (fst (pad_added_handler ev data linked)))
   \<and> (list_ex is_pad_link (fst (pad_added_handler ev data linked)) \<longrightarrow>
        (\<exists>t. pad_media_type (new_pad ev) = Some t \<and> prefix ''video/x-raw'' t))"
  by (auto simp: pad_link_iff g_str_has_prefix_iff)

theorem pad_added_links_only_raw_video_witness:
  "pad_media_type (new_pad (pad_event audio_pad GST_PAD_LINK_OK)) = Some ''audio/x-raw''
   \<and> \<not> prefix ''video/x-raw'' ''audio/x-raw''
   \<and> \<not> list_ex is_pad_link
         (fst (pad_added_handler (pad_event audio_pad GST_PAD_LINK_OK) data0 False))
   \<and> list_ex is_pad_link
         (fst (pad_added_handler (pad_event video_pad GST_PAD_LINK_OK) data0 False))
   \<and> (\<exists>t. pad_media_type (new_pad (pad_event video_pad GST_PAD_LINK_OK)) = Some t
          \<and> prefix ''video/x-raw'' t)"
proof -
  have a: "pad_media_type (new_pad (pad_event audio_pad GST_PAD_LINK_OK)) = Some ''audio/x-raw''
      \<and> \<not> prefix ''video/x-raw'' ''audio/x-raw''"
    by (simp add: pad_media_type_def pad_event_def audio_pad_def)
  have v: "list_ex is_pad_link
      (fst (pad_added_handler (pad_event video_pad GST_PAD_LINK_OK) data0 False))"
    by (simp add: pad_link_iff pad_media_type_def pad_event_def video_pad_def)
  from a pad_added_links_only_raw_video
    [of "pad_event audio_pad GST_PAD_LINK_OK" data0 False]
  have "\<not> list_ex is_pad_link
      (fst (pad_added_handler (pad_event audio_pad GST_PAD_LINK_OK) data0 False))"
    by blast
  moreover from v pad_added_links_only_raw_video
    [of "pad_event video_pad GST_PAD_LINK_OK" data0 False]
  have "\<exists>t. pad_media_type (new_pad (pad_event video_pad GST_PAD_LINK_OK)) = Some t
      \<and> prefix ''video/x-raw'' t"
    by blast
  ultimately show ?thesis using a v by blast
qed

lemma handler_linked:
  "pad_added_handler ev data True =
     ([Gst_element_get_static_pad (videoconvert data) ''sink'',
       G_print ''Received new pad %s from %s:\<newline>''
         [Some (pad_name (new_pad ev)), Some (src_name ev)],
       Gst_pad_is_linked (Static_pad (videoconvert data) ''sink'') True,
       G_print ''We are already linked. Ignoring.\<newline>'' [],
       Gst_object_unref (Static_pad (videoconvert data) ''sink'')],
      True)"
  by (simp add: pad_added_handler_def pad_added_exit_def)

lemma handler_count:
  "length (filter is_pad_link_ok (fst (pad_added_handler ev data linked))) =
     (if \<not> linked \<and> snd (pad_added_handler ev data linked) then 1 else 0)"
  unfolding pad_added_handler_def pad_added_exit_def Let_def
  by (simp split: option.split)

lemma handler_stays_linked: "snd (pad_added_handler ev data True)"
  by (simp add: handler_linked)

lemma events_count:
  "length (filter is_pad_link_ok (fst (pad_added_events data linked evs)))
     \<le> (if linked then 0 else 1)"
proof (induction evs arbitrary: linked)
  case Nil
  show ?case by simp
next
  case (Cons ev evs)
  obtain acts l' where h: "pad_added_handler ev data linked = (acts, l')"
    by (cases "pad_added_handler ev data linked")
  have c: "length (filter is_pad_link_ok acts) = (if \<not> linked \<and> l' then 1 else 0)"
    using handler_count [of ev data linked] h by simp
  have s: "linked \<Longrightarrow> l'"
    using handler_stays_linked [of ev data] h by auto
  have r: "length (filter is_pad_link_ok (fst (pad_added_events data l' evs)))
     \<le> (if l' then 0 else 1)"
    by (rule Cons.IH)
  show ?case
    using c s r h by (auto simp: split_beta split: if_splits)
qed

text \<open>
  Claim C2. When the converter's sink pad is already linked, the handler's calls are
  exactly: take the reference to that pad, print the pad's arrival, ask whether the pad is
  linked, print that it is, release the reference; there is no \<open>gst_pad_link\<close> call and the
  pad is linked afterwards as before. Over any sequence of pad-added events, from either
  starting state, at most one \<open>gst_pad_link\<close> call answers \<open>GST_PAD_LINK_OK\<close>, and none
  when the pad was linked at the start.
\<close>

theorem pad_added_links_at_most_once:
  "pad_added_handler ev data True =
     ([Gst_element_get_static_pad (videoconvert data) ''sink'',
       G_print ''Received new pad %s from %s:\<newline>''
         [Some (pad_name (new_pad ev)), Some (src_name ev)],
       Gst_pad_is_linked (Static_pad (videoconvert data) ''sink'') True,
       G_print ''We are already linked. Ignoring.\<newline>'' [],
       Gst_object_unref (Static_pad (videoconvert data) ''sink'')],
      True)
   \<and> length (filter is_pad_link_ok (fst (pad_added_events data linked evs)))
       \<le> (if linked then 0 else 1)"
  using handler_linked events_count by blast

text \<open>
  Claim C9, at an input where the code departs from it: a pad-added event for a pad
  without current caps, the converter's sink pad not yet linked. The handler passes the
  \<open>NULL\<close> caps to \<open>gst_caps_get_structure\<close> and the \<open>NULL\<close> structure to
  \<open>gst_structure_get_name\<close>; only the release after the label \<open>exit\<close> tests the caps.
\<close>

theorem pad_added_passes_null_caps:
  "fst (pad_added_handler (pad_event capless_pad GST_PAD_LINK_OK) data0 False) =
     [Gst_element_get_static_pad (Some 2) ''sink'',
      G_print ''Received new pad %s from %s:\<newline>'' [Some ''src_0'', Some ''source''],
      Gst_pad_is_linked (Static_pad (Some 2) ''sink'') False,
      Gst_pad_get_current_caps \<lparr>pad_name = ''src_0'', current_caps = None\<rparr> None,
      Gst_caps_get_structure None 0 None,
      Gst_structure_get_name None None,
      G_print ''It has type '%s', which is not raw video. Ignoring.\<newline>'' [None],
      Gst_object_unref (Static_pad (Some 2) ''sink'')]"
  by (simp add: pad_added_handler_def pad_added_exit_def pad_event_def capless_pad_def
      data0_def Let_def)

subsection \<open>The loop and \<open>main\<close>\<close>

lemma bus_types_val: "bus_types = 67"
  by (simp add: bus_types_def operator_or_def GstMessageType_defs)

lemma filter_three:
  "list_all (\<lambda>t. gst_bus_filter_matches bus_types t =
       (t = GST_MESSAGE_STATE_CHANGED \<or> t = GST_MESSAGE_ERROR \<or> t = GST_MESSAGE_EOS))
     GstMessageType_enumerators"
  by (simp add: bus_types_val gst_bus_filter_matches_def GST_MESSAGE_TYPE_IS_EXTENDED_def
     GstMessageType_enumerators_def GstMessageType_defs)

lemma msg_distinct:
  "GST_MESSAGE_ERROR \<noteq> GST_MESSAGE_EOS" "GST_MESSAGE_ERROR \<noteq> GST_MESSAGE_STATE_CHANGED"
  "GST_MESSAGE_EOS \<noteq> GST_MESSAGE_STATE_CHANGED" 
  "GST_MESSAGE_EOS \<noteq> GST_MESSAGE_ERROR" "GST_MESSAGE_STATE_CHANGED \<noteq> GST_MESSAGE_ERROR"
  "GST_MESSAGE_STATE_CHANGED \<noteq> GST_MESSAGE_EOS" 
  by (simp_all add: GstMessageType_defs)

lemma parse_terminate:
  "snd (parse_message data m sk t) =
     (if msg_type m = GST_MESSAGE_ERROR then True
      else if msg_type m = GST_MESSAGE_EOS then False else t)"
  by (simp add: parse_message_def)

lemma body_exit:
  "snd (loop_body data t it) =
     (if state_fails it then Body_return (- 1)
      else Body_end (if pops_type GST_MESSAGE_ERROR it then True
                     else if pops_type GST_MESSAGE_EOS it then False else t))"
  by (simp add: loop_body_def state_fails_def pops_type_def Let_def parse_message_def split_beta
      split: option.split)

lemma loop_again:
  "\<not> state_fails it \<Longrightarrow> \<not> pops_type GST_MESSAGE_ERROR it \<Longrightarrow>
   video_playing_loop data False (it # its) =
     (fst (loop_body data False it) @ fst (video_playing_loop data False its),
      snd (video_playing_loop data False its))"
  using body_exit [of data False it]
  by (cases "loop_body data False it") (simp add: split_beta)

lemma loop_stops:
  "state_fails it \<or> pops_type GST_MESSAGE_ERROR it \<Longrightarrow>
   video_playing_loop data t (it # its) =
     (fst (loop_body data t it), if state_fails it then Loop_return (- 1) else Loop_done)"
  using body_exit [of data t it]
  by (cases "loop_body data t it") (auto simp add: split_beta)

lemma main_setup_ok:
  "setup_ok env \<Longrightarrow>
   main env =
     (setup_calls env @ fst (video_playing_loop (data_of env) False (iterations env))
        @ (if snd (video_playing_loop (data_of env) False (iterations env)) = Loop_done
           then free_resources (data_of env) (null_state_ret env) else []),
      case snd (video_playing_loop (data_of env) False (iterations env)) of
        Loop_return c \<Rightarrow> Returned c | Loop_done \<Rightarrow> Returned 0 | Loop_pending \<Rightarrow> Playing)"
  by (auto simp: setup_ok_def all_created_def main_def setup_calls_def data_of_def
      create_elements_def Let_def split: prod.split loop_exit.split)

lemma loop_exit_find:
  "snd (video_playing_loop data False its) =
     (case find fatal its of None \<Rightarrow> Loop_pending
      | Some it \<Rightarrow> if state_fails it then Loop_return (- 1) else Loop_done)"
proof (induction its)
  case Nil
  show ?case by simp
next
  case (Cons it its)
  show ?case
  proof (cases "fatal it")
    case True
    then show ?thesis using loop_stops [of it data False its] by (simp add: fatal_def)
  next
    case False
    then show ?thesis using loop_again [of it data its] Cons.IH by (simp add: fatal_def)
  qed
qed

lemma loop_trace_suffix:
  "find fatal its = Some it \<Longrightarrow>
   suffix (fst (loop_body data False it)) (fst (video_playing_loop data False its))"
proof (induction its)
  case Nil
  then show ?case by simp
next
  case (Cons x xs)
  show ?case
  proof (cases "fatal x")
    case True
    then show ?thesis
      using loop_stops [of x data False xs] Cons.prems by (simp add: fatal_def)
  next
    case False
    then have "suffix (fst (loop_body data False it)) (fst (video_playing_loop data False xs))"
      using Cons by simp
    then show ?thesis
      using False loop_again [of x data xs] by (simp add: fatal_def suffix_appendI)
  qed
qed

lemma loop_member:
  "a \<in> set (fst (video_playing_loop data t its)) \<Longrightarrow>
   \<exists>it \<in> set its. \<exists>t'. a \<in> set (fst (loop_body data t' it))"
proof (induction its arbitrary: t)
  case Nil
  then show ?case by simp
next
  case (Cons x xs)
  obtain acts ex where b: "loop_body data t x = (acts, ex)"
    by (cases "loop_body data t x")
  show ?case
  proof (cases "a \<in> set acts")
    case True
    then show ?thesis using b by (metis fst_conv list.set_intros(1))
  next
    case False
    then obtain t' where "a \<in> set (fst (video_playing_loop data t' xs))"
      using Cons.prems b by (cases ex) (auto simp: split_beta split: if_splits)
    then show ?thesis using Cons.IH by (meson list.set_intros(2))
  qed
qed

lemma loop_filter_eq:
  assumes "\<And>t it. length (filter P (fst (loop_body data t it)))
             = length (filter Q (fst (loop_body data t it)))"
  shows "length (filter P (fst (video_playing_loop data t its)))
             = length (filter Q (fst (video_playing_loop data t its)))"
proof (induction its arbitrary: t)
  case Nil
  show ?case by simp
next
  case (Cons x xs)
  obtain acts ex where b: "loop_body data t x = (acts, ex)"
    by (cases "loop_body data t x")
  have h: "length (filter P acts) = length (filter Q acts)"
    using assms [of t x] b by simp
  show ?case
    using b h Cons.IH by (cases ex) (auto simp: split_beta)
qed

lemma body_fail:
  "state_fails it \<Longrightarrow>
   loop_body data t it =
     ([Gst_element_set_state (pipeline data) GST_STATE_PLAYING GST_STATE_CHANGE_FAILURE,
       G_printerr ''Unable to set pipeline to the playing state.\<newline>'' [],
       Gst_object_unref (Element (pipeline data)),
       Getchar],
      Body_return (- 1))"
  by (simp add: loop_body_def state_fails_def)

lemma body_error:
  "\<not> state_fails it \<Longrightarrow> popped it = Some m \<Longrightarrow> msg_type m = GST_MESSAGE_ERROR \<Longrightarrow>
   fst (loop_body data t it) =
     [Gst_element_set_state (pipeline data) GST_STATE_PLAYING (set_state_ret it),
      Gst_element_get_bus (pipeline data),
      Gst_bus_timed_pop_filtered (Bus_of (pipeline data)) GST_CLOCK_TIME_NONE bus_types
        (Some m),
      Gst_message_parse_error m,
      G_printerr ''Error received from element %s: %s\<newline>''
        [Some (msg_src_name m), Some (err_message m)],
      G_printerr ''Debugging information: %s \<newline>''
        [case debug_info m of Some d \<Rightarrow> Some d | None \<Rightarrow> Some ''none''],
      G_clear_error,
      G_free (debug_info m),
      Gst_message_unref m]"
  by (simp add: loop_body_def state_fails_def Let_def parse_message_def bus_types_def)

lemma body_hd:
  "hd (fst (loop_body data t it)) =
     Gst_element_set_state (pipeline data) GST_STATE_PLAYING (set_state_ret it)"
  by (simp add: loop_body_def Let_def split_beta split: option.split)

lemma body_nonempty: "fst (loop_body data t it) \<noteq> []"
  by (simp add: loop_body_def Let_def split_beta split: option.split)

lemma loop_hd:
  "hd (fst (video_playing_loop data t (it # its))) =
     Gst_element_set_state (pipeline data) GST_STATE_PLAYING (set_state_ret it)"
  using body_hd [of data t it] body_nonempty [of data t it]
  by (cases "loop_body data t it") (auto simp: split_beta split: body_exit.split)

lemma body_error_pop:
  "list_ex (pop_returns GST_MESSAGE_ERROR) (fst (loop_body data t it)) =
     (\<not> state_fails it \<and> pops_type GST_MESSAGE_ERROR it)"
  by (auto simp: loop_body_def Let_def split_beta state_fails_def pops_type_def pop_returns_def
      parse_message_def is_seek_def split: option.split)

lemma body_failed_play:
  "list_ex is_failed_play (fst (loop_body data t it)) = state_fails it"
  by (auto simp: loop_body_def Let_def split_beta state_fails_def is_failed_play_def
      parse_message_def split: option.split)

lemma loop_done_error:
  "snd (video_playing_loop data False its) = Loop_done \<Longrightarrow>
   list_ex (pop_returns GST_MESSAGE_ERROR) (fst (video_playing_loop data False its))"
proof -
  assume d: "snd (video_playing_loop data False its) = Loop_done"
  then obtain it where f: "find fatal its = Some it" and nf: "\<not> state_fails it"
    by (auto simp: loop_exit_find split: option.splits if_splits)
  from f have "fatal it" by (auto simp: find_Some_iff)
  with nf have "list_ex (pop_returns GST_MESSAGE_ERROR) (fst (loop_body data False it))"
    by (simp add: body_error_pop fatal_def)
  moreover have "set (fst (loop_body data False it))
      \<subseteq> set (fst (video_playing_loop data False its))"
    using loop_trace_suffix [OF f, of data] by (rule set_mono_suffix)
  ultimately show ?thesis by (auto simp: list_ex_iff)
qed

lemma loop_return_failed:
  "snd (video_playing_loop data False its) = Loop_return c \<Longrightarrow>
   c = - 1 \<and> list_ex is_failed_play (fst (video_playing_loop data False its))"
proof -
  assume d: "snd (video_playing_loop data False its) = Loop_return c"
  then obtain it where f: "find fatal its = Some it" and nf: "state_fails it" and c: "c = - 1"
    by (auto simp: loop_exit_find split: option.splits if_splits)
  have "list_ex is_failed_play (fst (loop_body data False it))"
    using nf by (simp add: body_failed_play)
  moreover have "set (fst (loop_body data False it))
      \<subseteq> set (fst (video_playing_loop data False its))"
    using loop_trace_suffix [OF f, of data] by (rule set_mono_suffix)
  ultimately show ?thesis using c by (auto simp: list_ex_iff)
qed

lemma main_create_failed:
  "\<not> all_created env \<Longrightarrow>
   main env =
     (create_elements (data_of env)
        @ [G_printerr ''All elements could not be created.\<newline>'' [], Getchar],
      Returned (- 1))"
  unfolding all_created_def main_def data_of_def Let_def
  by (simp only: CustomData.simps de_Morgan_conj not_not if_True)

lemma main_link1_failed:
  "all_created env \<Longrightarrow> \<not> link_convert_filter env \<Longrightarrow>
   main env =
     (create_elements (data_of env)
        @ [Gst_bin_add_many (made_pipeline env)
             [made_source env, made_videoconvert env, made_filter env, made_videosink env],
           Gst_element_link (made_videoconvert env) (made_filter env) False,
           G_printerr ''Elements could not be linked.\<newline>'' [],
           Gst_object_unref (Element (made_pipeline env)),
           Getchar],
      Returned (- 1))"
  unfolding all_created_def main_def data_of_def Let_def
  by simp

lemma main_link2_failed:
  "all_created env \<Longrightarrow> link_convert_filter env \<Longrightarrow> \<not> link_filter_sink env \<Longrightarrow>
   main env =
     (create_elements (data_of env)
        @ [Gst_bin_add_many (made_pipeline env)
             [made_source env, made_videoconvert env, made_filter env, made_videosink env],
           Gst_element_link (made_videoconvert env) (made_filter env) True,
           Gst_element_link (made_filter env) (made_videosink env) False,
           G_printerr ''Elements could not be linked.\<newline>'' [],
           Gst_object_unref (Element (made_pipeline env)),
           Getchar],
      Returned (- 1))"
  unfolding all_created_def main_def data_of_def Let_def
  by simp

lemma create_in_setup: "set (create_elements (data_of env)) \<subseteq> set (setup_calls env)"
  by (simp add: create_elements_def data_of_def setup_calls_def)

lemma main_setup_failed:
  "\<not> setup_ok env \<Longrightarrow> set (fst (main env)) \<subseteq> set (outside_loop env)"
proof -
  assume n: "\<not> setup_ok env"
  have c: "set (create_elements (data_of env)) \<subseteq> set (outside_loop env)"
    using create_in_setup [of env] by (auto simp: outside_loop_def)
  consider "\<not> all_created env" | "all_created env" "\<not> link_convert_filter env"
    | "all_created env" "link_convert_filter env" "\<not> link_filter_sink env"
    using n by (auto simp: setup_ok_def)
  then show ?thesis
  proof cases
    case 1
    then show ?thesis using c by (simp add: main_create_failed) (simp add: outside_loop_def)
  next
    case 2
    then show ?thesis using c
      by (simp add: main_link1_failed) (simp add: outside_loop_def setup_calls_def)
  next
    case 3
    then show ?thesis using c
      by (simp add: main_link2_failed) (simp add: outside_loop_def setup_calls_def)
  qed
qed

lemma main_member_cases:
  "a \<in> set (fst (main env)) \<Longrightarrow>
   a \<in> set (outside_loop env)
   \<or> (setup_ok env
       \<and> a \<in> set (fst (video_playing_loop (data_of env) False (iterations env))))"
proof (cases "setup_ok env")
  case True
  assume "a \<in> set (fst (main env))"
  then show ?thesis using True
    by (auto simp: main_setup_ok outside_loop_def split: if_splits)
next
  case False
  assume "a \<in> set (fst (main env))"
  then show ?thesis using main_setup_failed [OF False] by blast
qed

lemma outside_loop_calls:
  "a \<in> set (outside_loop env) \<Longrightarrow>
   \<not> is_seek a \<and> \<not> pop_returns ty a
   \<and> a \<noteq> G_printerr ''Unexpected message received.\<newline>'' []
   \<and> a \<noteq> Gst_bus_timed_pop_filtered b tm tys mo"
  by (auto simp: outside_loop_def setup_calls_def free_resources_def is_seek_def
      pop_returns_def)

lemma parse_seeks:
  "filter is_seek (fst (parse_message data m sk t)) =
     (if msg_type m = GST_MESSAGE_EOS then
        [Gst_element_seek (pipeline data) 1 GST_FORMAT_TIME GST_SEEK_FLAG_FLUSH
           GST_SEEK_TYPE_SET 0 GST_SEEK_TYPE_NONE GST_CLOCK_TIME_NONE sk]
      else [])"
  by (simp add: parse_message_def msg_distinct is_seek_def)

lemma body_seeks:
  "filter is_seek (fst (loop_body data t it)) =
     (if \<not> state_fails it \<and> pops_type GST_MESSAGE_EOS it then
        [Gst_element_seek (pipeline data) 1 GST_FORMAT_TIME GST_SEEK_FLAG_FLUSH
           GST_SEEK_TYPE_SET 0 GST_SEEK_TYPE_NONE GST_CLOCK_TIME_NONE (seek_ok it)]
      else [])"
  by (simp add: loop_body_def Let_def split_beta state_fails_def pops_type_def parse_seeks
      split: option.split) (simp add: is_seek_def)

lemma body_eos_pops:
  "length (filter (pop_returns GST_MESSAGE_EOS) (fst (loop_body data t it))) =
     (if \<not> state_fails it \<and> pops_type GST_MESSAGE_EOS it then 1 else 0)"
  by (simp add: loop_body_def Let_def split_beta state_fails_def pops_type_def
      pop_returns_def parse_message_def split: option.split)

lemma body_seek_count:
  "length (filter is_seek (fst (loop_body data t it))) =
   length (filter (pop_returns GST_MESSAGE_EOS) (fst (loop_body data t it)))"
  by (simp add: body_seeks body_eos_pops)

lemma loop_seek_count:
  "length (filter is_seek (fst (video_playing_loop data t its))) =
   length (filter (pop_returns GST_MESSAGE_EOS) (fst (video_playing_loop data t its)))"
  by (rule loop_filter_eq) (rule body_seek_count)

lemma outside_filters:
  "set xs \<subseteq> set (outside_loop env) \<Longrightarrow>
   filter is_seek xs = [] \<and> filter (pop_returns ty) xs = []"
  using outside_loop_calls [of _ env ty] by (auto simp: filter_empty_conv)

lemma main_seek_count:
  "length (filter is_seek (fst (main env))) =
   length (filter (pop_returns GST_MESSAGE_EOS) (fst (main env)))"
proof (cases "setup_ok env")
  case True
  have s: "set (setup_calls env) \<subseteq> set (outside_loop env)"
    "set (free_resources (data_of env) (null_state_ret env)) \<subseteq> set (outside_loop env)"
    by (auto simp: outside_loop_def)
  show ?thesis
    using True outside_filters [OF s(1)] outside_filters [OF s(2)]
    by (simp add: main_setup_ok loop_seek_count)
next
  case False
  then show ?thesis
    using outside_filters [OF main_setup_failed [OF False]] by simp
qed

lemma body_seek_member:
  "a \<in> set (fst (loop_body data t it)) \<Longrightarrow> is_seek a \<Longrightarrow> is_seek_to_start (pipeline data) a"
proof -
  assume a: "a \<in> set (fst (loop_body data t it))" and s: "is_seek a"
  then have "a \<in> set (filter is_seek (fst (loop_body data t it)))" by simp
  then show ?thesis
    by (auto simp: body_seeks is_seek_to_start_def split: if_splits)
qed

lemma main_seeks_to_start:
  "a \<in> set (fst (main env)) \<Longrightarrow> is_seek a \<Longrightarrow> is_seek_to_start (made_pipeline env) a"
proof -
  assume a: "a \<in> set (fst (main env))" and s: "is_seek a"
  then have "a \<in> set (fst (video_playing_loop (data_of env) False (iterations env)))"
    using main_member_cases [of a env] outside_loop_calls [of a env] by blast
  then obtain it t' where "a \<in> set (fst (loop_body (data_of env) t' it))"
    using loop_member by blast
  then have "is_seek_to_start (pipeline (data_of env)) a"
    using s by (rule body_seek_member)
  then show ?thesis by (simp add: data_of_def)
qed

lemma body_pops:
  "Gst_bus_timed_pop_filtered b tm ty mo \<in> set (fst (loop_body data t it)) \<Longrightarrow>
   tm = GST_CLOCK_TIME_NONE \<and> ty = bus_types"
  by (auto simp: loop_body_def Let_def split_beta parse_message_def bus_types_def
      split: option.splits if_splits)

lemma main_pops:
  "Gst_bus_timed_pop_filtered b tm ty mo \<in> set (fst (main env)) \<Longrightarrow>
   tm = GST_CLOCK_TIME_NONE \<and> ty = bus_types"
proof -
  assume a: "Gst_bus_timed_pop_filtered b tm ty mo \<in> set (fst (main env))"
  then have "Gst_bus_timed_pop_filtered b tm ty mo
      \<in> set (fst (video_playing_loop (data_of env) False (iterations env)))"
    using main_member_cases [of _ env] outside_loop_calls [of _ env] by blast
  then obtain it t' where
    "Gst_bus_timed_pop_filtered b tm ty mo \<in> set (fst (loop_body (data_of env) t' it))"
    using loop_member by blast
  then show ?thesis by (rule body_pops)
qed

lemma deliverable_three:
  "deliverable it \<Longrightarrow> popped it = Some m \<Longrightarrow>
   msg_type m = GST_MESSAGE_STATE_CHANGED \<or> msg_type m = GST_MESSAGE_ERROR
   \<or> msg_type m = GST_MESSAGE_EOS"
  using filter_three by (auto simp: deliverable_def list_all_iff)

lemma body_unexpected:
  "deliverable it \<Longrightarrow>
   G_printerr ''Unexpected message received.\<newline>'' [] \<notin> set (fst (loop_body data t it))"
proof (cases "popped it")
  case None
  then show ?thesis by (simp add: loop_body_def Let_def)
next
  case (Some m)
  assume "deliverable it"
  then have "msg_type m = GST_MESSAGE_STATE_CHANGED \<or> msg_type m = GST_MESSAGE_ERROR
     \<or> msg_type m = GST_MESSAGE_EOS"
    using Some by (rule deliverable_three)
  then show ?thesis using Some
    by (auto simp: loop_body_def Let_def split_beta parse_message_def)
qed

lemma main_unexpected:
  "list_all deliverable (iterations env) \<Longrightarrow>
   G_printerr ''Unexpected message received.\<newline>'' [] \<notin> set (fst (main env))"
proof
  assume d: "list_all deliverable (iterations env)"
  assume a: "G_printerr ''Unexpected message received.\<newline>'' [] \<in> set (fst (main env))"
  then have "G_printerr ''Unexpected message received.\<newline>'' []
      \<in> set (fst (video_playing_loop (data_of env) False (iterations env)))"
    using main_member_cases [of _ env] outside_loop_calls [of _ env] by blast
  then obtain it t' where "it \<in> set (iterations env)"
    "G_printerr ''Unexpected message received.\<newline>'' []
       \<in> set (fst (loop_body (data_of env) t' it))"
    using loop_member by blast
  then show False using d body_unexpected by (auto simp: list_all_iff)
qed

lemma body_no_link: "\<not> list_ex is_link (fst (loop_body data t it))"
  by (auto simp: loop_body_def Let_def split_beta parse_message_def is_link_def list_ex_iff
      split: option.splits if_splits)

lemma loop_no_link: "\<not> list_ex is_link (fst (video_playing_loop data t its))"
  unfolding list_ex_iff
  using loop_member [of _ data t its] body_no_link [unfolded list_ex_iff] by blast

lemma main_links:
  "prefix (filter is_link (fst (main env)))
     [Gst_element_link (made_videoconvert env) (made_filter env) (link_convert_filter env),
      Gst_element_link (made_filter env) (made_videosink env) (link_filter_sink env)]"
proof -
  have l: "filter is_link (fst (video_playing_loop (data_of env) False (iterations env))) = []"
    using loop_no_link by (simp add: filter_empty_conv list_ex_iff)
  have c: "filter is_link (create_elements (data_of env)) = []"
    by (simp add: create_elements_def is_link_def)
  consider "setup_ok env" | "\<not> all_created env" | "all_created env" "\<not> link_convert_filter env"
    | "all_created env" "link_convert_filter env" "\<not> link_filter_sink env"
    by (auto simp: setup_ok_def)
  then show ?thesis
  proof cases
    case 1
    then show ?thesis using l
      by (simp add: main_setup_ok) (simp add: setup_calls_def free_resources_def is_link_def
        setup_ok_def)
  next
    case 2
    then show ?thesis using c by (simp add: main_create_failed) (simp add: is_link_def)
  next
    case 3
    then show ?thesis using c by (simp add: main_link1_failed) (simp add: is_link_def)
  next
    case 4
    then show ?thesis using c by (simp add: main_link2_failed) (simp add: is_link_def)
  qed
qed

lemma main_returns:
  "setup_ok env \<Longrightarrow> find fatal (iterations env) = Some it \<Longrightarrow>
   snd (main env) = (if state_fails it then Returned (- 1) else Returned 0)
   \<and> suffix (fst (loop_body (data_of env) False it)
        @ (if state_fails it then [] else free_resources (data_of env) (null_state_ret env)))
       (fst (main env))"
proof -
  assume ok: "setup_ok env" and f: "find fatal (iterations env) = Some it"
  have e: "snd (video_playing_loop (data_of env) False (iterations env)) =
      (if state_fails it then Loop_return (- 1) else Loop_done)"
    using f by (simp add: loop_exit_find)
  have s: "suffix (fst (loop_body (data_of env) False it))
      (fst (video_playing_loop (data_of env) False (iterations env)))"
    using f by (rule loop_trace_suffix)
  show ?thesis
    using e s by (auto simp: main_setup_ok [OF ok] suffix_def)
qed

lemmas run_defs =
  main_def Let_def env0_def pass_def msg0_def loop_body_def parse_message_def
  create_elements_def free_resources_def msg_distinct bus_types_def

lemmas pass_defs = eos_pass_def error_pass_def failed_pass_def

lemma first_pass_calls:
  "\<exists>rest. fst (loop_body data t it) =
     [Gst_element_set_state (pipeline data) GST_STATE_PLAYING (set_state_ret it)]
     @ (if state_fails it then []
        else [Gst_element_get_bus (pipeline data),
              Gst_bus_timed_pop_filtered (Bus_of (pipeline data)) GST_CLOCK_TIME_NONE
                bus_types (popped it)])
     @ rest"
  by (simp add: loop_body_def Let_def state_fails_def bus_types_def split_beta
      split: option.split)

lemma body_waits:
  "length (filter is_bus_wait (fst (loop_body data t it))) = (if state_fails it then 0 else 1)"
  by (simp add: loop_body_def Let_def split_beta state_fails_def is_bus_wait_def
      parse_message_def split: option.split)

lemma loop_cons_body:
  "\<exists>tail. fst (video_playing_loop data t (it # its)) = fst (loop_body data t it) @ tail"
  by (cases "loop_body data t it") (auto simp: split_beta split: body_exit.split)

lemma loop_nonfatal_append:
  "\<not> list_ex fatal pre \<Longrightarrow>
   video_playing_loop data False (pre @ its) =
     (fst (video_playing_loop data False pre) @ fst (video_playing_loop data False its),
      snd (video_playing_loop data False its))
   \<and> length (filter is_bus_wait (fst (video_playing_loop data False pre))) = length pre"
proof (induction pre)
  case Nil
  show ?case by simp
next
  case (Cons x xs)
  then have f: "\<not> fatal x" and r: "\<not> list_ex fatal xs"
    by simp_all
  from f have nf: "\<not> state_fails x" "\<not> pops_type GST_MESSAGE_ERROR x"
    by (simp_all add: fatal_def)
  have w: "length (filter is_bus_wait (fst (loop_body data False x))) = 1"
    using nf(1) by (simp add: body_waits)
  show ?case
    using Cons.IH [OF r] w
    by (simp del: video_playing_loop.simps
        add: loop_again [OF nf, of data "xs @ its"] loop_again [OF nf, of data xs])
qed

lemma main_first_pass:
  "setup_ok env \<Longrightarrow> iterations env = it # post \<Longrightarrow>
   prefix
     (setup_calls env
      @ [Gst_element_set_state (made_pipeline env) GST_STATE_PLAYING (set_state_ret it)]
      @ (if state_fails it then []
         else [Gst_element_get_bus (made_pipeline env),
               Gst_bus_timed_pop_filtered (Bus_of (made_pipeline env)) GST_CLOCK_TIME_NONE
                 bus_types (popped it)]))
     (fst (main env))"
proof -
  assume ok: "setup_ok env" and i: "iterations env = it # post"
  obtain tail where t: "fst (video_playing_loop (data_of env) False (it # post)) =
      fst (loop_body (data_of env) False it) @ tail"
    using loop_cons_body by blast
  obtain rest where b: "fst (loop_body (data_of env) False it) =
     [Gst_element_set_state (pipeline (data_of env)) GST_STATE_PLAYING (set_state_ret it)]
     @ (if state_fails it then []
        else [Gst_element_get_bus (pipeline (data_of env)),
              Gst_bus_timed_pop_filtered (Bus_of (pipeline (data_of env))) GST_CLOCK_TIME_NONE
                bus_types (popped it)])
     @ rest"
    using first_pass_calls by blast
  have p: "pipeline (data_of env) = made_pipeline env" by (simp add: data_of_def)
  show ?thesis
    unfolding main_setup_ok [OF ok] i fst_conv t b p prefix_def
    by (rule exI [of _ "rest @ tail
        @ (if snd (video_playing_loop (data_of env) False (it # post)) = Loop_done
           then free_resources (data_of env) (null_state_ret env) else [])"]) simp
qed

lemma main_later_pass:
  "setup_ok env \<Longrightarrow> iterations env = pre @ it # post \<Longrightarrow> \<not> list_ex fatal pre \<Longrightarrow>
   \<not> state_fails it \<Longrightarrow>
   \<exists>before after.
     fst (main env) =
       setup_calls env @ before
       @ [Gst_element_set_state (made_pipeline env) GST_STATE_PLAYING (set_state_ret it),
          Gst_element_get_bus (made_pipeline env),
          Gst_bus_timed_pop_filtered (Bus_of (made_pipeline env)) GST_CLOCK_TIME_NONE
            bus_types (popped it)]
       @ after
     \<and> length (filter is_bus_wait before) = length pre"
proof -
  assume ok: "setup_ok env" and i: "iterations env = pre @ it # post"
    and nf: "\<not> list_ex fatal pre" and ns: "\<not> state_fails it"
  have a: "fst (video_playing_loop (data_of env) False (pre @ it # post)) =
      fst (video_playing_loop (data_of env) False pre)
      @ fst (video_playing_loop (data_of env) False (it # post))"
    and l: "length (filter is_bus_wait (fst (video_playing_loop (data_of env) False pre)))
      = length pre"
    using loop_nonfatal_append [OF nf, of "data_of env" "it # post"] by simp_all
  obtain tail where t: "fst (video_playing_loop (data_of env) False (it # post)) =
      fst (loop_body (data_of env) False it) @ tail"
    using loop_cons_body by blast
  obtain rest where b: "fst (loop_body (data_of env) False it) =
     [Gst_element_set_state (pipeline (data_of env)) GST_STATE_PLAYING (set_state_ret it),
      Gst_element_get_bus (pipeline (data_of env)),
      Gst_bus_timed_pop_filtered (Bus_of (pipeline (data_of env))) GST_CLOCK_TIME_NONE
        bus_types (popped it)]
     @ rest"
    using first_pass_calls [of "data_of env" False it] ns by auto
  have p: "pipeline (data_of env) = made_pipeline env" by (simp add: data_of_def)
  have "fst (main env) =
       setup_calls env @ fst (video_playing_loop (data_of env) False pre)
       @ [Gst_element_set_state (made_pipeline env) GST_STATE_PLAYING (set_state_ret it),
          Gst_element_get_bus (made_pipeline env),
          Gst_bus_timed_pop_filtered (Bus_of (made_pipeline env)) GST_CLOCK_TIME_NONE
            bus_types (popped it)]
       @ (rest @ tail
          @ (if snd (video_playing_loop (data_of env) False (iterations env)) = Loop_done
             then free_resources (data_of env) (null_state_ret env) else []))"
    unfolding main_setup_ok [OF ok] fst_conv
    by (simp del: video_playing_loop.simps add: i a t b p)
  then show ?thesis using l by blast
qed

lemma invoke_links:
  "g_str_has_prefix (pad_media_type (new_pad ev)) (Some ''video/x-raw'') \<Longrightarrow>
   Gst_pad_link (new_pad ev) (Static_pad (videoconvert data) ''sink'') (link_answer ev)
     \<in> set (fst (invoke Pad_added_handler ev data False))
   \<and> snd (invoke Pad_added_handler ev data False) = (link_answer ev = GST_PAD_LINK_OK)"
  by (simp add: pad_added_handler_def pad_media_type_def Let_def)

subsection \<open>The claims about \<open>main\<close>\<close>

text \<open>
  Claim C3, as the code has it. When an element cannot be created, \<open>main\<close> reports it
  and returns -1. When a static link fails, \<open>main\<close> reports it, releases the pipeline and
  returns -1. In the first pass of the loop in which the state change to playing fails or
  an error message arrives: if the state change failed, \<open>main\<close> reports it, releases the
  pipeline and returns -1; otherwise the message is an error message, \<open>main\<close> reports
  it, leaves the loop, releases the bus, sets the pipeline to the null state, releases the
  pipeline, and returns 0.
\<close>

theorem fatal_paths_end_the_process:
  "(\<not> all_created env \<longrightarrow>
      snd (main env) = Returned (- 1)
      \<and> suffix [G_printerr ''All elements could not be created.\<newline>'' [], Getchar]
          (fst (main env)))
   \<and> (all_created env \<and> (\<not> link_convert_filter env \<or> \<not> link_filter_sink env) \<longrightarrow>
        snd (main env) = Returned (- 1)
        \<and> suffix
            [G_printerr ''Elements could not be linked.\<newline>'' [],
             Gst_object_unref (Element (made_pipeline env)),
             Getchar]
            (fst (main env)))
   \<and> (\<forall>it. setup_ok env \<and> find fatal (iterations env) = Some it \<and> state_fails it \<longrightarrow>
        snd (main env) = Returned (- 1)
        \<and> suffix
            [G_printerr ''Unable to set pipeline to the playing state.\<newline>'' [],
             Gst_object_unref (Element (made_pipeline env)),
             Getchar]
            (fst (main env)))
   \<and> (\<forall>it. setup_ok env \<and> find fatal (iterations env) = Some it \<and> \<not> state_fails it \<longrightarrow>
        (\<exists>m. popped it = Some m \<and> msg_type m = GST_MESSAGE_ERROR
           \<and> snd (main env) = Returned 0
           \<and> suffix
               [G_printerr ''Error received from element %s: %s\<newline>''
                  [Some (msg_src_name m), Some (err_message m)],
                G_printerr ''Debugging information: %s \<newline>''
                  [case debug_info m of Some d \<Rightarrow> Some d | None \<Rightarrow> Some ''none''],
                G_clear_error,
                G_free (debug_info m),
                Gst_message_unref m,
                Gst_object_unref (Bus_of (made_pipeline env)),
                Gst_element_set_state (made_pipeline env) GST_STATE_NULL (null_state_ret env),
                Gst_object_unref (Element (made_pipeline env)),
                Getchar]
               (fst (main env))))"
proof (intro conjI impI allI)
  assume "\<not> all_created env"
  then show "snd (main env) = Returned (- 1)"
    and "suffix [G_printerr ''All elements could not be created.\<newline>'' [], Getchar]
          (fst (main env))"
    by (simp_all add: main_create_failed suffix_def)
next
  assume h: "all_created env \<and> (\<not> link_convert_filter env \<or> \<not> link_filter_sink env)"
  then consider "all_created env" "\<not> link_convert_filter env"
    | "all_created env" "link_convert_filter env" "\<not> link_filter_sink env"
    by blast
  then have "snd (main env) = Returned (- 1)
        \<and> suffix
            [G_printerr ''Elements could not be linked.\<newline>'' [],
             Gst_object_unref (Element (made_pipeline env)),
             Getchar]
            (fst (main env))"
  proof cases
    case 1
    have "suffix [G_printerr ''Elements could not be linked.\<newline>'' [],
             Gst_object_unref (Element (made_pipeline env)), Getchar]
       (create_elements (data_of env)
        @ [Gst_bin_add_many (made_pipeline env)
             [made_source env, made_videoconvert env, made_filter env, made_videosink env],
           Gst_element_link (made_videoconvert env) (made_filter env) False,
           G_printerr ''Elements could not be linked.\<newline>'' [],
           Gst_object_unref (Element (made_pipeline env)),
           Getchar])"
      unfolding suffix_def by (rule exI [of _ "create_elements (data_of env)
        @ [Gst_bin_add_many (made_pipeline env)
             [made_source env, made_videoconvert env, made_filter env, made_videosink env],
           Gst_element_link (made_videoconvert env) (made_filter env) False]"]) simp
    then show ?thesis using 1 by (simp add: main_link1_failed)
  next
    case 2
    have "suffix [G_printerr ''Elements could not be linked.\<newline>'' [],
             Gst_object_unref (Element (made_pipeline env)), Getchar]
       (create_elements (data_of env)
        @ [Gst_bin_add_many (made_pipeline env)
             [made_source env, made_videoconvert env, made_filter env, made_videosink env],
           Gst_element_link (made_videoconvert env) (made_filter env) True,
           Gst_element_link (made_filter env) (made_videosink env) False,
           G_printerr ''Elements could not be linked.\<newline>'' [],
           Gst_object_unref (Element (made_pipeline env)),
           Getchar])"
      unfolding suffix_def by (rule exI [of _ "create_elements (data_of env)
        @ [Gst_bin_add_many (made_pipeline env)
             [made_source env, made_videoconvert env, made_filter env, made_videosink env],
           Gst_element_link (made_videoconvert env) (made_filter env) True,
           Gst_element_link (made_filter env) (made_videosink env) False]"]) simp
    then show ?thesis using 2 by (simp add: main_link2_failed)
  qed
  then show "snd (main env) = Returned (- 1)"
    and "suffix
            [G_printerr ''Elements could not be linked.\<newline>'' [],
             Gst_object_unref (Element (made_pipeline env)),
             Getchar]
            (fst (main env))"
    by simp_all
next
  fix it
  assume h: "setup_ok env \<and> find fatal (iterations env) = Some it \<and> state_fails it"
  then have r: "snd (main env) = Returned (- 1)"
    and s: "suffix (fst (loop_body (data_of env) False it)) (fst (main env))"
    using main_returns [of env it] by simp_all
  show "snd (main env) = Returned (- 1)" by (rule r)
  have "suffix
      [G_printerr ''Unable to set pipeline to the playing state.\<newline>'' [],
       Gst_object_unref (Element (made_pipeline env)),
       Getchar]
      (fst (loop_body (data_of env) False it))"
    using h by (simp add: body_fail data_of_def suffix_Cons)
  then show "suffix
      [G_printerr ''Unable to set pipeline to the playing state.\<newline>'' [],
       Gst_object_unref (Element (made_pipeline env)),
       Getchar]
      (fst (main env))"
    using s by (rule suffix_order.trans)
next
  fix it
  assume h: "setup_ok env \<and> find fatal (iterations env) = Some it \<and> \<not> state_fails it"
  then have r: "snd (main env) = Returned 0"
    and s: "suffix (fst (loop_body (data_of env) False it)
        @ free_resources (data_of env) (null_state_ret env)) (fst (main env))"
    using main_returns [of env it] by simp_all
  from h have "fatal it" by (auto simp: find_Some_iff)
  with h obtain m where m: "popped it = Some m" "msg_type m = GST_MESSAGE_ERROR"
    by (auto simp: fatal_def pops_type_def split: option.splits)
  have b: "fst (loop_body (data_of env) False it) =
     [Gst_element_set_state (pipeline (data_of env)) GST_STATE_PLAYING (set_state_ret it),
      Gst_element_get_bus (pipeline (data_of env)),
      Gst_bus_timed_pop_filtered (Bus_of (pipeline (data_of env))) GST_CLOCK_TIME_NONE
        bus_types (Some m),
      Gst_message_parse_error m,
      G_printerr ''Error received from element %s: %s\<newline>''
        [Some (msg_src_name m), Some (err_message m)],
      G_printerr ''Debugging information: %s \<newline>''
        [case debug_info m of Some d \<Rightarrow> Some d | None \<Rightarrow> Some ''none''],
      G_clear_error,
      G_free (debug_info m),
      Gst_message_unref m]"
    using h m by (simp add: body_error)
  have "suffix
      [G_printerr ''Error received from element %s: %s\<newline>''
         [Some (msg_src_name m), Some (err_message m)],
       G_printerr ''Debugging information: %s \<newline>''
         [case debug_info m of Some d \<Rightarrow> Some d | None \<Rightarrow> Some ''none''],
       G_clear_error,
       G_free (debug_info m),
       Gst_message_unref m,
       Gst_object_unref (Bus_of (made_pipeline env)),
       Gst_element_set_state (made_pipeline env) GST_STATE_NULL (null_state_ret env),
       Gst_object_unref (Element (made_pipeline env)),
       Getchar]
      (fst (loop_body (data_of env) False it)
        @ free_resources (data_of env) (null_state_ret env))"
    unfolding b by (simp add: free_resources_def data_of_def suffix_Cons)
  then have "suffix
      [G_printerr ''Error received from element %s: %s\<newline>''
         [Some (msg_src_name m), Some (err_message m)],
       G_printerr ''Debugging information: %s \<newline>''
         [case debug_info m of Some d \<Rightarrow> Some d | None \<Rightarrow> Some ''none''],
       G_clear_error,
       G_free (debug_info m),
       Gst_message_unref m,
       Gst_object_unref (Bus_of (made_pipeline env)),
       Gst_element_set_state (made_pipeline env) GST_STATE_NULL (null_state_ret env),
       Gst_object_unref (Element (made_pipeline env)),
       Getchar]
      (fst (main env))"
    using s by (rule suffix_order.trans)
  then show "\<exists>m. popped it = Some m \<and> msg_type m = GST_MESSAGE_ERROR
           \<and> snd (main env) = Returned 0
           \<and> suffix
               [G_printerr ''Error received from element %s: %s\<newline>''
                  [Some (msg_src_name m), Some (err_message m)],
                G_printerr ''Debugging information: %s \<newline>''
                  [case debug_info m of Some d \<Rightarrow> Some d | None \<Rightarrow> Some ''none''],
                G_clear_error,
                G_free (debug_info m),
                Gst_message_unref m,
                Gst_object_unref (Bus_of (made_pipeline env)),
                Gst_element_set_state (made_pipeline env) GST_STATE_NULL (null_state_ret env),
                Gst_object_unref (Element (made_pipeline env)),
                Getchar]
               (fst (main env))"
    using m r by blast
qed

theorem fatal_paths_end_the_process_witness:
  "\<not> all_created ((env0 []) \<lparr>made_filter := None\<rparr>)
   \<and> snd (main ((env0 []) \<lparr>made_filter := None\<rparr>)) = Returned (- 1)
   \<and> all_created ((env0 []) \<lparr>link_filter_sink := False\<rparr>)
   \<and> \<not> link_filter_sink ((env0 []) \<lparr>link_filter_sink := False\<rparr>)
   \<and> suffix
       [G_printerr ''Elements could not be linked.\<newline>'' [],
        Gst_object_unref (Element (made_pipeline ((env0 []) \<lparr>link_filter_sink := False\<rparr>))),
        Getchar]
       (fst (main ((env0 []) \<lparr>link_filter_sink := False\<rparr>)))
   \<and> setup_ok (env0 [eos_pass True, failed_pass])
   \<and> find fatal (iterations (env0 [eos_pass True, failed_pass])) = Some failed_pass
   \<and> state_fails failed_pass
   \<and> snd (main (env0 [eos_pass True, failed_pass])) = Returned (- 1)
   \<and> setup_ok (env0 [eos_pass True, error_pass])
   \<and> find fatal (iterations (env0 [eos_pass True, error_pass])) = Some error_pass
   \<and> \<not> state_fails error_pass
   \<and> snd (main (env0 [eos_pass True, error_pass])) = Returned 0"
proof -
  have h1: "\<not> all_created ((env0 []) \<lparr>made_filter := None\<rparr>)"
    by (simp add: all_created_def env0_def)
  have h2: "all_created ((env0 []) \<lparr>link_filter_sink := False\<rparr>)
      \<and> \<not> link_filter_sink ((env0 []) \<lparr>link_filter_sink := False\<rparr>)"
    by (simp add: all_created_def env0_def)
  have h3: "setup_ok (env0 [eos_pass True, failed_pass])
      \<and> find fatal (iterations (env0 [eos_pass True, failed_pass])) = Some failed_pass
      \<and> state_fails failed_pass"
    by (simp add: setup_ok_def all_created_def env0_def fatal_def state_fails_def
        pops_type_def pass_defs pass_def msg0_def msg_distinct)
  have h4: "setup_ok (env0 [eos_pass True, error_pass])
      \<and> find fatal (iterations (env0 [eos_pass True, error_pass])) = Some error_pass
      \<and> \<not> state_fails error_pass"
    by (simp add: setup_ok_def all_created_def env0_def fatal_def state_fails_def
        pops_type_def pass_defs pass_def msg0_def msg_distinct)
  note t1 = fatal_paths_end_the_process [of "(env0 []) \<lparr>made_filter := None\<rparr>"]
  note t2 = fatal_paths_end_the_process [of "(env0 []) \<lparr>link_filter_sink := False\<rparr>"]
  note t3 = fatal_paths_end_the_process [of "env0 [eos_pass True, failed_pass]"]
  note t4 = fatal_paths_end_the_process [of "env0 [eos_pass True, error_pass]"]
  have c1: "snd (main ((env0 []) \<lparr>made_filter := None\<rparr>)) = Returned (- 1)"
    using t1 h1 by blast
  have c2: "suffix
       [G_printerr ''Elements could not be linked.\<newline>'' [],
        Gst_object_unref (Element (made_pipeline ((env0 []) \<lparr>link_filter_sink := False\<rparr>))),
        Getchar]
       (fst (main ((env0 []) \<lparr>link_filter_sink := False\<rparr>)))"
    using t2 h2 by blast
  have c3: "snd (main (env0 [eos_pass True, failed_pass])) = Returned (- 1)"
    using t3 h3 by blast
  have c4: "snd (main (env0 [eos_pass True, error_pass])) = Returned 0"
    using t4 h4 by blast
  show ?thesis using h1 h2 h3 h4 c1 c2 c3 c4 by blast
qed

text \<open>
  Claim C3 as worded (every fatal path ends with a non-zero exit status after the
  pipeline is released) fails on two runs: after a bus error message \<open>main\<close> returns 0,
  and when an element cannot be created \<open>main\<close> returns without a call that releases the
  pipeline.
\<close>

theorem fatal_paths_as_claimed_counterexample:
  "main (env0 [pass GST_STATE_CHANGE_ASYNC (Some (msg0 GST_MESSAGE_ERROR 1)) True]) =
     ([Gst_init,
       Gst_element_factory_make ''uridecodebin'' ''source'' (Some 1),
       Gst_element_factory_make ''videoconvert'' ''videoconvert'' (Some 2),
       Gst_element_factory_make ''blurfilter'' ''blurfilter'' (Some 3),
       Gst_element_factory_make ''autovideosink'' ''videosink'' (Some 4),
       Gst_pipeline_new ''video-pipeline'' (Some 5),
       Gst_bin_add_many (Some 5) [Some 1, Some 2, Some 3, Some 4],
       Gst_element_link (Some 2) (Some 3) True,
       Gst_element_link (Some 3) (Some 4) True,
       G_object_set (Some 1) ''uri'' uri,
       G_signal_connect (Some 1) ''pad-added'' Pad_added_handler data0,
       Gst_element_set_state (Some 5) GST_STATE_PLAYING GST_STATE_CHANGE_ASYNC,
       Gst_element_get_bus (Some 5),
       Gst_bus_timed_pop_filtered (Bus_of (Some 5)) GST_CLOCK_TIME_NONE bus_types
         (Some (msg0 GST_MESSAGE_ERROR 1)),
       Gst_message_parse_error (msg0 GST_MESSAGE_ERROR 1),
       G_printerr ''Error received from element %s: %s\<newline>''
         [Some ''source'', Some ''Resource not found.''],
       G_printerr ''Debugging information: %s \<newline>'' [Some ''none''],
       G_clear_error,
       G_free None,
       Gst_message_unref (msg0 GST_MESSAGE_ERROR 1),
       Gst_object_unref (Bus_of (Some 5)),
       Gst_element_set_state (Some 5) GST_STATE_NULL GST_STATE_CHANGE_SUCCESS,
       Gst_object_unref (Element (Some 5)),
       Getchar],
      Returned 0)
   \<and> main ((env0 []) \<lparr>made_filter := None\<rparr>) =
       ([Gst_init,
         Gst_element_factory_make ''uridecodebin'' ''source'' (Some 1),
         Gst_element_factory_make ''videoconvert'' ''videoconvert'' (Some 2),
         Gst_element_factory_make ''blurfilter'' ''blurfilter'' None,
         Gst_element_factory_make ''autovideosink'' ''videosink'' (Some 4),
         Gst_pipeline_new ''video-pipeline'' (Some 5),
         G_printerr ''All elements could not be created.\<newline>'' [],
         Getchar],
        Returned (- 1))"
  by (simp add: run_defs data0_def)

text \<open>
  Claim C4. In every run of \<open>main\<close> there are as many seek calls as bus waits that
  returned an end-of-stream message, and every seek call is the seek of the pipeline to
  position zero with the flush flag (rate 1, time format, \<open>GST_SEEK_TYPE_SET\<close> to 0, no
  stop position). The switch makes exactly one such call for an end-of-stream message and
  none for any other message.
\<close>

theorem eos_seeks_to_start_once:
  "length (filter is_seek (fst (main env))) =
     length (filter (pop_returns GST_MESSAGE_EOS) (fst (main env)))
   \<and> (\<forall>a \<in> set (fst (main env)). is_seek a \<longrightarrow> is_seek_to_start (made_pipeline env) a)
   \<and> filter is_seek (fst (parse_message data m sk t)) =
       (if msg_type m = GST_MESSAGE_EOS then
          [Gst_element_seek (pipeline data) 1 GST_FORMAT_TIME GST_SEEK_FLAG_FLUSH
             GST_SEEK_TYPE_SET 0 GST_SEEK_TYPE_NONE GST_CLOCK_TIME_NONE sk]
        else [])"
  using main_seek_count main_seeks_to_start parse_seeks by blast

theorem eos_seeks_to_start_once_witness:
  "Gst_element_seek (Some 5) 1 GST_FORMAT_TIME GST_SEEK_FLAG_FLUSH GST_SEEK_TYPE_SET 0
       GST_SEEK_TYPE_NONE GST_CLOCK_TIME_NONE True
     \<in> set (fst (main (env0 [eos_pass True])))
   \<and> is_seek (Gst_element_seek (Some 5) 1 GST_FORMAT_TIME GST_SEEK_FLAG_FLUSH
       GST_SEEK_TYPE_SET 0 GST_SEEK_TYPE_NONE GST_CLOCK_TIME_NONE True)
   \<and> is_seek_to_start (made_pipeline (env0 [eos_pass True]))
       (Gst_element_seek (Some 5) 1 GST_FORMAT_TIME GST_SEEK_FLAG_FLUSH
          GST_SEEK_TYPE_SET 0 GST_SEEK_TYPE_NONE GST_CLOCK_TIME_NONE True)
   \<and> length (filter (pop_returns GST_MESSAGE_EOS) (fst (main (env0 [eos_pass True])))) = 1
   \<and> length (filter is_seek (fst (main (env0 [eos_pass True])))) = 1"
proof -
  have m: "Gst_element_seek (Some 5) 1 GST_FORMAT_TIME GST_SEEK_FLAG_FLUSH GST_SEEK_TYPE_SET 0
       GST_SEEK_TYPE_NONE GST_CLOCK_TIME_NONE True
     \<in> set (fst (main (env0 [eos_pass True])))"
    by (simp add: run_defs pass_defs)
  have s: "is_seek (Gst_element_seek (Some 5) 1 GST_FORMAT_TIME GST_SEEK_FLAG_FLUSH
       GST_SEEK_TYPE_SET 0 GST_SEEK_TYPE_NONE GST_CLOCK_TIME_NONE True)"
    by (simp add: is_seek_def)
  have p: "length (filter (pop_returns GST_MESSAGE_EOS) (fst (main (env0 [eos_pass True]))))
      = 1"
    by (simp add: run_defs pass_defs pop_returns_def)
  note t = eos_seeks_to_start_once [of "env0 [eos_pass True]"]
  have c1: "is_seek_to_start (made_pipeline (env0 [eos_pass True]))
       (Gst_element_seek (Some 5) 1 GST_FORMAT_TIME GST_SEEK_FLAG_FLUSH
          GST_SEEK_TYPE_SET 0 GST_SEEK_TYPE_NONE GST_CLOCK_TIME_NONE True)"
    using t m s by blast
  have c2: "length (filter is_seek (fst (main (env0 [eos_pass True])))) = 1"
    using t p by simp
  show ?thesis using m s p c1 c2 by blast
qed

text \<open>
  Claim C5. In a pass where the state change does not fail, the bus wait returns an
  end-of-stream message and the seek fails: the switch prints the end of stream, makes the
  one seek call, prints \<open>Seek failed!\<close> and leaves \<open>terminate\<close> false; the pass makes no
  other seek call, and the loop goes on with the next pass.
\<close>

theorem failed_seek_only_logged:
  "msg_type m = GST_MESSAGE_EOS \<and> \<not> state_fails it \<and> popped it = Some m \<and> \<not> seek_ok it \<longrightarrow>
     parse_message data m (seek_ok it) t =
       ([G_print ''End-Of-Stream reached.\<newline>'' [],
         Gst_element_seek (pipeline data) 1 GST_FORMAT_TIME GST_SEEK_FLAG_FLUSH
           GST_SEEK_TYPE_SET 0 GST_SEEK_TYPE_NONE GST_CLOCK_TIME_NONE False,
         G_print ''Seek failed!\<newline>'' []],
        False)
     \<and> video_playing_loop data t (it # its) =
         ([Gst_element_set_state (pipeline data) GST_STATE_PLAYING (set_state_ret it),
           Gst_element_get_bus (pipeline data),
           Gst_bus_timed_pop_filtered (Bus_of (pipeline data)) GST_CLOCK_TIME_NONE bus_types
             (Some m),
           G_print ''End-Of-Stream reached.\<newline>'' [],
           Gst_element_seek (pipeline data) 1 GST_FORMAT_TIME GST_SEEK_FLAG_FLUSH
             GST_SEEK_TYPE_SET 0 GST_SEEK_TYPE_NONE GST_CLOCK_TIME_NONE False,
           G_print ''Seek failed!\<newline>'' [],
           Gst_message_unref m]
          @ fst (video_playing_loop data False its),
          snd (video_playing_loop data False its))"
  by (simp add: parse_message_def msg_distinct loop_body_def Let_def state_fails_def
      bus_types_def split_beta)

theorem failed_seek_only_logged_witness:
  "msg_type (msg0 GST_MESSAGE_EOS 1) = GST_MESSAGE_EOS
   \<and> \<not> state_fails (eos_pass False)
   \<and> popped (eos_pass False) = Some (msg0 GST_MESSAGE_EOS 1)
   \<and> \<not> seek_ok (eos_pass False)
   \<and> video_playing_loop data0 False [eos_pass False] =
       ([Gst_element_set_state (Some 5) GST_STATE_PLAYING GST_STATE_CHANGE_ASYNC,
         Gst_element_get_bus (Some 5),
         Gst_bus_timed_pop_filtered (Bus_of (Some 5)) GST_CLOCK_TIME_NONE bus_types
           (Some (msg0 GST_MESSAGE_EOS 1)),
         G_print ''End-Of-Stream reached.\<newline>'' [],
         Gst_element_seek (Some 5) 1 GST_FORMAT_TIME GST_SEEK_FLAG_FLUSH
           GST_SEEK_TYPE_SET 0 GST_SEEK_TYPE_NONE GST_CLOCK_TIME_NONE False,
         G_print ''Seek failed!\<newline>'' [],
         Gst_message_unref (msg0 GST_MESSAGE_EOS 1)],
        Loop_pending)"
proof -
  have h: "msg_type (msg0 GST_MESSAGE_EOS 1) = GST_MESSAGE_EOS
     \<and> \<not> state_fails (eos_pass False)
     \<and> popped (eos_pass False) = Some (msg0 GST_MESSAGE_EOS 1)
     \<and> \<not> seek_ok (eos_pass False)"
    by (simp add: msg0_def pass_def pass_defs state_fails_def)
  show ?thesis
    using h failed_seek_only_logged [of "msg0 GST_MESSAGE_EOS 1" "eos_pass False" data0 False "[]"]
    by (simp add: data0_def pass_defs pass_def)
qed

text \<open>
  Claim C6. Every bus wait in a run of \<open>main\<close> is called with the time limit
  \<open>GST_CLOCK_TIME_NONE\<close> and the mask made of state-changed, error and end-of-stream.
  Of all the message types, that mask lets exactly those three through the library's
  test. So in a run whose messages are ones the bus wait can return,
  \<open>Unexpected message received.\<close> is never printed.
\<close>

theorem bus_wait_unbounded_and_filtered:
  "(\<forall>b tm ty mo. Gst_bus_timed_pop_filtered b tm ty mo \<in> set (fst (main env)) \<longrightarrow>
       tm = GST_CLOCK_TIME_NONE \<and> ty = bus_types)
   \<and> (\<forall>ty \<in> set GstMessageType_enumerators.
        gst_bus_filter_matches bus_types ty =
          (ty = GST_MESSAGE_STATE_CHANGED \<or> ty = GST_MESSAGE_ERROR \<or> ty = GST_MESSAGE_EOS))
   \<and> (list_all deliverable (iterations env) \<longrightarrow>
        G_printerr ''Unexpected message received.\<newline>'' [] \<notin> set (fst (main env)))"
proof -
  have "\<forall>ty \<in> set GstMessageType_enumerators.
        gst_bus_filter_matches bus_types ty =
          (ty = GST_MESSAGE_STATE_CHANGED \<or> ty = GST_MESSAGE_ERROR \<or> ty = GST_MESSAGE_EOS)"
    using filter_three by (simp only: list_all_iff)
  then show ?thesis
    using main_pops [of _ _ _ _ env] main_unexpected [of env] by blast
qed

theorem bus_wait_unbounded_and_filtered_witness:
  "Gst_bus_timed_pop_filtered (Bus_of (Some 5)) GST_CLOCK_TIME_NONE 67
       (Some (msg0 GST_MESSAGE_EOS 1))
     \<in> set (fst (main (env0 [eos_pass True])))
   \<and> (67 :: GstMessageType) = bus_types
   \<and> GST_MESSAGE_EOS \<in> set GstMessageType_enumerators
   \<and> gst_bus_filter_matches bus_types GST_MESSAGE_EOS
   \<and> GST_MESSAGE_TAG \<in> set GstMessageType_enumerators
   \<and> \<not> gst_bus_filter_matches bus_types GST_MESSAGE_TAG
   \<and> list_all deliverable (iterations (env0 [eos_pass True]))
   \<and> G_printerr ''Unexpected message received.\<newline>'' []
       \<notin> set (fst (main (env0 [eos_pass True])))"
proof -
  have m: "Gst_bus_timed_pop_filtered (Bus_of (Some 5)) GST_CLOCK_TIME_NONE 67
       (Some (msg0 GST_MESSAGE_EOS 1))
     \<in> set (fst (main (env0 [eos_pass True])))"
    by (simp add: run_defs pass_defs operator_or_def GstMessageType_defs)
  have e: "GST_MESSAGE_EOS \<in> set GstMessageType_enumerators"
    "GST_MESSAGE_TAG \<in> set GstMessageType_enumerators"
    by (simp_all add: GstMessageType_enumerators_def)
  have d: "list_all deliverable (iterations (env0 [eos_pass True]))"
    using e by (simp add: env0_def pass_defs pass_def msg0_def deliverable_def bus_types_val
        gst_bus_filter_matches_def GST_MESSAGE_TYPE_IS_EXTENDED_def GST_MESSAGE_EOS_def
        GST_MESSAGE_EXTENDED_def)
  note t = bus_wait_unbounded_and_filtered [of "env0 [eos_pass True]"]
  have c1: "(67 :: GstMessageType) = bus_types" using t m by blast
  have c2: "gst_bus_filter_matches bus_types GST_MESSAGE_EOS" using t e by blast
  have c3: "\<not> gst_bus_filter_matches bus_types GST_MESSAGE_TAG"
    using t e by (simp add: GstMessageType_defs)
  have c4: "G_printerr ''Unexpected message received.\<newline>'' []
       \<notin> set (fst (main (env0 [eos_pass True])))"
    using t d by blast
  show ?thesis using m e d c1 c2 c3 c4 by blast
qed

text \<open>
  Claim C7. For a state-changed message, the switch parses the message and prints the old
  and the new state when the message's source is the pipeline, and makes no call at all
  otherwise; in both cases \<open>terminate\<close> keeps its value. A pass that receives a
  state-changed message from another element makes, besides the state change and the bus
  wait that every pass makes, only the release of the message that every message gets. A
  pass that receives a state-changed message from the pipeline makes the state change and
  the bus wait, parses the message, prints the old and the new state, and releases the
  message.
\<close>

theorem state_changed_logged_for_pipeline_only:
  "(msg_type m = GST_MESSAGE_STATE_CHANGED \<longrightarrow>
      parse_message data m sk t =
        (if Some (msg_src m) = pipeline data then
           [Gst_message_parse_state_changed m,
            G_print ''Pipeline state changed from %s to %s:\<newline>''
              [Some (gst_element_state_get_name (old_state m)),
               Some (gst_element_state_get_name (new_state m))]]
         else [],
         t))
   \<and> (msg_type m = GST_MESSAGE_STATE_CHANGED \<and> popped it = Some m \<and> \<not> state_fails it
        \<and> Some (msg_src m) \<noteq> pipeline data \<longrightarrow>
        loop_body data t it =
          ([Gst_element_set_state (pipeline data) GST_STATE_PLAYING (set_state_ret it),
            Gst_element_get_bus (pipeline data),
            Gst_bus_timed_pop_filtered (Bus_of (pipeline data)) GST_CLOCK_TIME_NONE bus_types
              (Some m),
            Gst_message_unref m],
           Body_end t))
   \<and> (msg_type m = GST_MESSAGE_STATE_CHANGED \<and> popped it = Some m \<and> \<not> state_fails it
        \<and> Some (msg_src m) = pipeline data \<longrightarrow>
        loop_body data t it =
          ([Gst_element_set_state (pipeline data) GST_STATE_PLAYING (set_state_ret it),
            Gst_element_get_bus (pipeline data),
            Gst_bus_timed_pop_filtered (Bus_of (pipeline data)) GST_CLOCK_TIME_NONE bus_types
              (Some m),
            Gst_message_parse_state_changed m,
            G_print ''Pipeline state changed from %s to %s:\<newline>''
              [Some (gst_element_state_get_name (old_state m)),
               Some (gst_element_state_get_name (new_state m))],
            Gst_message_unref m],
           Body_end t))"
  by (simp add: parse_message_def msg_distinct loop_body_def Let_def state_fails_def
      bus_types_def)

theorem state_changed_logged_for_pipeline_only_witness:
  "msg_type (msg0 GST_MESSAGE_STATE_CHANGED 5) = GST_MESSAGE_STATE_CHANGED
   \<and> parse_message data0 (msg0 GST_MESSAGE_STATE_CHANGED 5) True False =
       ([Gst_message_parse_state_changed (msg0 GST_MESSAGE_STATE_CHANGED 5),
         G_print ''Pipeline state changed from %s to %s:\<newline>''
           [Some ''READY'', Some ''PAUSED'']],
        False)
   \<and> msg_type (msg0 GST_MESSAGE_STATE_CHANGED 2) = GST_MESSAGE_STATE_CHANGED
   \<and> parse_message data0 (msg0 GST_MESSAGE_STATE_CHANGED 2) True False = ([], False)
   \<and> popped (pass GST_STATE_CHANGE_ASYNC (Some (msg0 GST_MESSAGE_STATE_CHANGED 2)) True)
       = Some (msg0 GST_MESSAGE_STATE_CHANGED 2)
   \<and> \<not> state_fails (pass GST_STATE_CHANGE_ASYNC (Some (msg0 GST_MESSAGE_STATE_CHANGED 2)) True)
   \<and> Some (msg_src (msg0 GST_MESSAGE_STATE_CHANGED 2)) \<noteq> pipeline data0
   \<and> loop_body data0 False
         (pass GST_STATE_CHANGE_ASYNC (Some (msg0 GST_MESSAGE_STATE_CHANGED 2)) True) =
       ([Gst_element_set_state (Some 5) GST_STATE_PLAYING GST_STATE_CHANGE_ASYNC,
         Gst_element_get_bus (Some 5),
         Gst_bus_timed_pop_filtered (Bus_of (Some 5)) GST_CLOCK_TIME_NONE bus_types
           (Some (msg0 GST_MESSAGE_STATE_CHANGED 2)),
         Gst_message_unref (msg0 GST_MESSAGE_STATE_CHANGED 2)],
        Body_end False)
   \<and> popped (pass GST_STATE_CHANGE_ASYNC (Some (msg0 GST_MESSAGE_STATE_CHANGED 5)) True)
       = Some (msg0 GST_MESSAGE_STATE_CHANGED 5)
   \<and> \<not> state_fails (pass GST_STATE_CHANGE_ASYNC (Some (msg0 GST_MESSAGE_STATE_CHANGED 5)) True)
   \<and> Some (msg_src (msg0 GST_MESSAGE_STATE_CHANGED 5)) = pipeline data0
   \<and> loop_body data0 False
         (pass GST_STATE_CHANGE_ASYNC (Some (msg0 GST_MESSAGE_STATE_CHANGED 5)) True) =
       ([Gst_element_set_state (Some 5) GST_STATE_PLAYING GST_STATE_CHANGE_ASYNC,
         Gst_element_get_bus (Some 5),
         Gst_bus_timed_pop_filtered (Bus_of (Some 5)) GST_CLOCK_TIME_NONE bus_types
           (Some (msg0 GST_MESSAGE_STATE_CHANGED 5)),
         Gst_message_parse_state_changed (msg0 GST_MESSAGE_STATE_CHANGED 5),
         G_print ''Pipeline state changed from %s to %s:\<newline>''
           [Some ''READY'', Some ''PAUSED''],
         Gst_message_unref (msg0 GST_MESSAGE_STATE_CHANGED 5)],
        Body_end False)"
proof -
  have h: "msg_type (msg0 GST_MESSAGE_STATE_CHANGED 5) = GST_MESSAGE_STATE_CHANGED"
    "msg_type (msg0 GST_MESSAGE_STATE_CHANGED 2) = GST_MESSAGE_STATE_CHANGED"
    "popped (pass GST_STATE_CHANGE_ASYNC (Some (msg0 GST_MESSAGE_STATE_CHANGED 2)) True)
       = Some (msg0 GST_MESSAGE_STATE_CHANGED 2)"
    "\<not> state_fails (pass GST_STATE_CHANGE_ASYNC (Some (msg0 GST_MESSAGE_STATE_CHANGED 2)) True)"
    "Some (msg_src (msg0 GST_MESSAGE_STATE_CHANGED 2)) \<noteq> pipeline data0"
    "popped (pass GST_STATE_CHANGE_ASYNC (Some (msg0 GST_MESSAGE_STATE_CHANGED 5)) True)
       = Some (msg0 GST_MESSAGE_STATE_CHANGED 5)"
    "\<not> state_fails (pass GST_STATE_CHANGE_ASYNC (Some (msg0 GST_MESSAGE_STATE_CHANGED 5)) True)"
    "Some (msg_src (msg0 GST_MESSAGE_STATE_CHANGED 5)) = pipeline data0"
    by (simp_all add: msg0_def pass_def state_fails_def data0_def)
  note t1 = state_changed_logged_for_pipeline_only
    [of "msg0 GST_MESSAGE_STATE_CHANGED 5" data0 True False
      "pass GST_STATE_CHANGE_ASYNC (Some (msg0 GST_MESSAGE_STATE_CHANGED 5)) True"]
  note t2 = state_changed_logged_for_pipeline_only
    [of "msg0 GST_MESSAGE_STATE_CHANGED 2" data0 True False
      "pass GST_STATE_CHANGE_ASYNC (Some (msg0 GST_MESSAGE_STATE_CHANGED 2)) True"]
  have c1: "parse_message data0 (msg0 GST_MESSAGE_STATE_CHANGED 5) True False =
       ([Gst_message_parse_state_changed (msg0 GST_MESSAGE_STATE_CHANGED 5),
         G_print ''Pipeline state changed from %s to %s:\<newline>''
           [Some ''READY'', Some ''PAUSED'']],
        False)"
    using t1 h(1) by (simp add: data0_def msg0_def)
  have c2: "parse_message data0 (msg0 GST_MESSAGE_STATE_CHANGED 2) True False = ([], False)"
    using t2 h(2) by (simp add: data0_def msg0_def)
  have c3: "loop_body data0 False
         (pass GST_STATE_CHANGE_ASYNC (Some (msg0 GST_MESSAGE_STATE_CHANGED 2)) True) =
       ([Gst_element_set_state (Some 5) GST_STATE_PLAYING GST_STATE_CHANGE_ASYNC,
         Gst_element_get_bus (Some 5),
         Gst_bus_timed_pop_filtered (Bus_of (Some 5)) GST_CLOCK_TIME_NONE bus_types
           (Some (msg0 GST_MESSAGE_STATE_CHANGED 2)),
         Gst_message_unref (msg0 GST_MESSAGE_STATE_CHANGED 2)],
        Body_end False)"
    using t2 h(2,3,4,5) by (simp add: data0_def pass_def)
  have c4: "loop_body data0 False
         (pass GST_STATE_CHANGE_ASYNC (Some (msg0 GST_MESSAGE_STATE_CHANGED 5)) True) =
       ([Gst_element_set_state (Some 5) GST_STATE_PLAYING GST_STATE_CHANGE_ASYNC,
         Gst_element_get_bus (Some 5),
         Gst_bus_timed_pop_filtered (Bus_of (Some 5)) GST_CLOCK_TIME_NONE bus_types
           (Some (msg0 GST_MESSAGE_STATE_CHANGED 5)),
         Gst_message_parse_state_changed (msg0 GST_MESSAGE_STATE_CHANGED 5),
         G_print ''Pipeline state changed from %s to %s:\<newline>''
           [Some ''READY'', Some ''PAUSED''],
         Gst_message_unref (msg0 GST_MESSAGE_STATE_CHANGED 5)],
        Body_end False)"
    using t1 h(1,6,7,8) by (simp add: data0_def pass_def msg0_def)
  show ?thesis using h c1 c2 c3 c4 by blast
qed

text \<open>
  Claim C8. When the five elements are created and both static links succeed, the calls
  of \<open>main\<close> are, in this order: the creation of source, converter, filter, sink and
  pipeline; adding the four elements to the pipeline; linking converter to filter and
  filter to sink; setting the uri and connecting \<open>pad_added_handler\<close>, with the program's
  \<open>CustomData\<close> as user data, to the source's pad-added signal; then the calls of the loop
  (and, once the loop is left, the release of the resources). The loop makes no link call,
  and in every run the link calls of \<open>main\<close> are at most these two, in this order: none
  links the source to the converter. The loop follows the connection at once: its first
  pass sets the pipeline to playing and, unless that fails, takes the bus and waits on it.
  Every later pass that is reached, after passes without a failed state change or an
  error message, does the same again, one bus wait per earlier pass before it. The
  connected callback, called for a raw video pad while the converter's sink pad is not
  linked, calls \<open>gst_pad_link\<close> on the new pad and the converter's sink pad, and the pad is
  linked afterwards exactly when that call answers \<open>GST_PAD_LINK_OK\<close>.
\<close>

theorem main_order:
  "(setup_ok env \<longrightarrow>
      fst (main env) =
        [Gst_init,
         Gst_element_factory_make ''uridecodebin'' ''source'' (made_source env),
         Gst_element_factory_make ''videoconvert'' ''videoconvert'' (made_videoconvert env),
         Gst_element_factory_make ''blurfilter'' ''blurfilter'' (made_filter env),
         Gst_element_factory_make ''autovideosink'' ''videosink'' (made_videosink env),
         Gst_pipeline_new ''video-pipeline'' (made_pipeline env),
         Gst_bin_add_many (made_pipeline env)
           [made_source env, made_videoconvert env, made_filter env, made_videosink env],
         Gst_element_link (made_videoconvert env) (made_filter env) True,
         Gst_element_link (made_filter env) (made_videosink env) True,
         G_object_set (made_source env) ''uri'' uri,
         G_signal_connect (made_source env) ''pad-added'' Pad_added_handler (data_of env)]
        @ fst (video_playing_loop (data_of env) False (iterations env))
        @ (if snd (video_playing_loop (data_of env) False (iterations env)) = Loop_done
           then free_resources (data_of env) (null_state_ret env) else []))
   \<and> \<not> list_ex is_link (fst (video_playing_loop data t its))
   \<and> prefix (filter is_link (fst (main env)))
       [Gst_element_link (made_videoconvert env) (made_filter env) (link_convert_filter env),
        Gst_element_link (made_filter env) (made_videosink env) (link_filter_sink env)]
   \<and> (\<forall>it post. setup_ok env \<and> iterations env = it # post \<longrightarrow>
        prefix
          ([Gst_init,
            Gst_element_factory_make ''uridecodebin'' ''source'' (made_source env),
            Gst_element_factory_make ''videoconvert'' ''videoconvert''
              (made_videoconvert env),
            Gst_element_factory_make ''blurfilter'' ''blurfilter'' (made_filter env),
            Gst_element_factory_make ''autovideosink'' ''videosink'' (made_videosink env),
            Gst_pipeline_new ''video-pipeline'' (made_pipeline env),
            Gst_bin_add_many (made_pipeline env)
              [made_source env, made_videoconvert env, made_filter env, made_videosink env],
            Gst_element_link (made_videoconvert env) (made_filter env) True,
            Gst_element_link (made_filter env) (made_videosink env) True,
            G_object_set (made_source env) ''uri'' uri,
            G_signal_connect (made_source env) ''pad-added'' Pad_added_handler (data_of env),
            Gst_element_set_state (made_pipeline env) GST_STATE_PLAYING (set_state_ret it)]
           @ (if state_fails it then []
              else [Gst_element_get_bus (made_pipeline env),
                    Gst_bus_timed_pop_filtered (Bus_of (made_pipeline env))
                      GST_CLOCK_TIME_NONE bus_types (popped it)]))
          (fst (main env)))
   \<and> (\<forall>pre it post.
        setup_ok env \<and> iterations env = pre @ it # post \<and> \<not> list_ex fatal pre
        \<and> \<not> state_fails it \<longrightarrow>
        (\<exists>before after.
           fst (main env) =
             [Gst_init,
              Gst_element_factory_make ''uridecodebin'' ''source'' (made_source env),
              Gst_element_factory_make ''videoconvert'' ''videoconvert''
                (made_videoconvert env),
              Gst_element_factory_make ''blurfilter'' ''blurfilter'' (made_filter env),
              Gst_element_factory_make ''autovideosink'' ''videosink'' (made_videosink env),
              Gst_pipeline_new ''video-pipeline'' (made_pipeline env),
              Gst_bin_add_many (made_pipeline env)
                [made_source env, made_videoconvert env, made_filter env,
                 made_videosink env],
              Gst_element_link (made_videoconvert env) (made_filter env) True,
              Gst_element_link (made_filter env) (made_videosink env) True,
              G_object_set (made_source env) ''uri'' uri,
              G_signal_connect (made_source env) ''pad-added'' Pad_added_handler
                (data_of env)] @ before
             @ [Gst_element_set_state (made_pipeline env) GST_STATE_PLAYING (set_state_ret it),
                Gst_element_get_bus (made_pipeline env),
                Gst_bus_timed_pop_filtered (Bus_of (made_pipeline env)) GST_CLOCK_TIME_NONE
                  bus_types (popped it)]
             @ after
           \<and> length (filter is_bus_wait before) = length pre))
   \<and> (g_str_has_prefix (pad_media_type (new_pad ev)) (Some ''video/x-raw'') \<longrightarrow>
        Gst_pad_link (new_pad ev) (Static_pad (made_videoconvert env) ''sink'')
            (link_answer ev)
          \<in> set (fst (invoke Pad_added_handler ev (data_of env) False))
        \<and> snd (invoke Pad_added_handler ev (data_of env) False)
            = (link_answer ev = GST_PAD_LINK_OK))"
proof -
  have a: "setup_ok env \<longrightarrow>
      fst (main env) =
        [Gst_init,
         Gst_element_factory_make ''uridecodebin'' ''source'' (made_source env),
         Gst_element_factory_make ''videoconvert'' ''videoconvert'' (made_videoconvert env),
         Gst_element_factory_make ''blurfilter'' ''blurfilter'' (made_filter env),
         Gst_element_factory_make ''autovideosink'' ''videosink'' (made_videosink env),
         Gst_pipeline_new ''video-pipeline'' (made_pipeline env),
         Gst_bin_add_many (made_pipeline env)
           [made_source env, made_videoconvert env, made_filter env, made_videosink env],
         Gst_element_link (made_videoconvert env) (made_filter env) True,
         Gst_element_link (made_filter env) (made_videosink env) True,
         G_object_set (made_source env) ''uri'' uri,
         G_signal_connect (made_source env) ''pad-added'' Pad_added_handler (data_of env)]
        @ fst (video_playing_loop (data_of env) False (iterations env))
        @ (if snd (video_playing_loop (data_of env) False (iterations env)) = Loop_done
           then free_resources (data_of env) (null_state_ret env) else [])"
    using main_setup_ok [of env] by (simp add: setup_calls_def)
  have d1: "\<forall>it post. setup_ok env \<and> iterations env = it # post \<longrightarrow>
        prefix
          ([Gst_init,
            Gst_element_factory_make ''uridecodebin'' ''source'' (made_source env),
            Gst_element_factory_make ''videoconvert'' ''videoconvert''
              (made_videoconvert env),
            Gst_element_factory_make ''blurfilter'' ''blurfilter'' (made_filter env),
            Gst_element_factory_make ''autovideosink'' ''videosink'' (made_videosink env),
            Gst_pipeline_new ''video-pipeline'' (made_pipeline env),
            Gst_bin_add_many (made_pipeline env)
              [made_source env, made_videoconvert env, made_filter env, made_videosink env],
            Gst_element_link (made_videoconvert env) (made_filter env) True,
            Gst_element_link (made_filter env) (made_videosink env) True,
            G_object_set (made_source env) ''uri'' uri,
            G_signal_connect (made_source env) ''pad-added'' Pad_added_handler (data_of env),
            Gst_element_set_state (made_pipeline env) GST_STATE_PLAYING (set_state_ret it)]
           @ (if state_fails it then []
              else [Gst_element_get_bus (made_pipeline env),
                    Gst_bus_timed_pop_filtered (Bus_of (made_pipeline env))
                      GST_CLOCK_TIME_NONE bus_types (popped it)]))
          (fst (main env))"
  proof (intro allI impI)
    fix it post
    assume h: "setup_ok env \<and> iterations env = it # post"
    then have "prefix
     (setup_calls env
      @ [Gst_element_set_state (made_pipeline env) GST_STATE_PLAYING (set_state_ret it)]
      @ (if state_fails it then []
         else [Gst_element_get_bus (made_pipeline env),
               Gst_bus_timed_pop_filtered (Bus_of (made_pipeline env)) GST_CLOCK_TIME_NONE
                 bus_types (popped it)]))
     (fst (main env))"
      using main_first_pass [of env it post] by blast
    then show "prefix
          ([Gst_init,
            Gst_element_factory_make ''uridecodebin'' ''source'' (made_source env),
            Gst_element_factory_make ''videoconvert'' ''videoconvert''
              (made_videoconvert env),
            Gst_element_factory_make ''blurfilter'' ''blurfilter'' (made_filter env),
            Gst_element_factory_make ''autovideosink'' ''videosink'' (made_videosink env),
            Gst_pipeline_new ''video-pipeline'' (made_pipeline env),
            Gst_bin_add_many (made_pipeline env)
              [made_source env, made_videoconvert env, made_filter env, made_videosink env],
            Gst_element_link (made_videoconvert env) (made_filter env) True,
            Gst_element_link (made_filter env) (made_videosink env) True,
            G_object_set (made_source env) ''uri'' uri,
            G_signal_connect (made_source env) ''pad-added'' Pad_added_handler (data_of env),
            Gst_element_set_state (made_pipeline env) GST_STATE_PLAYING (set_state_ret it)]
           @ (if state_fails it then []
              else [Gst_element_get_bus (made_pipeline env),
                    Gst_bus_timed_pop_filtered (Bus_of (made_pipeline env))
                      GST_CLOCK_TIME_NONE bus_types (popped it)]))
          (fst (main env))"
      by (simp add: setup_calls_def)
  qed
  have d2: "\<forall>pre it post.
        setup_ok env \<and> iterations env = pre @ it # post \<and> \<not> list_ex fatal pre
        \<and> \<not> state_fails it \<longrightarrow>
        (\<exists>before after.
           fst (main env) =
             [Gst_init,
              Gst_element_factory_make ''uridecodebin'' ''source'' (made_source env),
              Gst_element_factory_make ''videoconvert'' ''videoconvert''
                (made_videoconvert env),
              Gst_element_factory_make ''blurfilter'' ''blurfilter'' (made_filter env),
              Gst_element_factory_make ''autovideosink'' ''videosink'' (made_videosink env),
              Gst_pipeline_new ''video-pipeline'' (made_pipeline env),
              Gst_bin_add_many (made_pipeline env)
                [made_source env, made_videoconvert env, made_filter env,
                 made_videosink env],
              Gst_element_link (made_videoconvert env) (made_filter env) True,
              Gst_element_link (made_filter env) (made_videosink env) True,
              G_object_set (made_source env) ''uri'' uri,
              G_signal_connect (made_source env) ''pad-added'' Pad_added_handler
                (data_of env)] @ before
             @ [Gst_element_set_state (made_pipeline env) GST_STATE_PLAYING (set_state_ret it),
                Gst_element_get_bus (made_pipeline env),
                Gst_bus_timed_pop_filtered (Bus_of (made_pipeline env)) GST_CLOCK_TIME_NONE
                  bus_types (popped it)]
             @ after
           \<and> length (filter is_bus_wait before) = length pre)"
    using main_later_pass [of env, unfolded setup_calls_def] by blast
  have e: "g_str_has_prefix (pad_media_type (new_pad ev)) (Some ''video/x-raw'') \<longrightarrow>
        Gst_pad_link (new_pad ev) (Static_pad (made_videoconvert env) ''sink'')
            (link_answer ev)
          \<in> set (fst (invoke Pad_added_handler ev (data_of env) False))
        \<and> snd (invoke Pad_added_handler ev (data_of env) False)
            = (link_answer ev = GST_PAD_LINK_OK)"
    using invoke_links [of ev "data_of env"] by (simp add: data_of_def)
  show ?thesis
    using a loop_no_link [of data t its] main_links [of env] d1 d2 e by blast
qed

theorem main_order_witness:
  "setup_ok (env0 [eos_pass True, error_pass])
   \<and> fst (main (env0 [eos_pass True, error_pass])) =
       [Gst_init,
        Gst_element_factory_make ''uridecodebin'' ''source'' (Some 1),
        Gst_element_factory_make ''videoconvert'' ''videoconvert'' (Some 2),
        Gst_element_factory_make ''blurfilter'' ''blurfilter'' (Some 3),
        Gst_element_factory_make ''autovideosink'' ''videosink'' (Some 4),
        Gst_pipeline_new ''video-pipeline'' (Some 5),
        Gst_bin_add_many (Some 5) [Some 1, Some 2, Some 3, Some 4],
        Gst_element_link (Some 2) (Some 3) True,
        Gst_element_link (Some 3) (Some 4) True,
        G_object_set (Some 1) ''uri'' uri,
        G_signal_connect (Some 1) ''pad-added'' Pad_added_handler data0,
        Gst_element_set_state (Some 5) GST_STATE_PLAYING GST_STATE_CHANGE_ASYNC,
        Gst_element_get_bus (Some 5),
        Gst_bus_timed_pop_filtered (Bus_of (Some 5)) GST_CLOCK_TIME_NONE bus_types
          (Some (msg0 GST_MESSAGE_EOS 1)),
        G_print ''End-Of-Stream reached.\<newline>'' [],
        Gst_element_seek (Some 5) 1 GST_FORMAT_TIME GST_SEEK_FLAG_FLUSH
          GST_SEEK_TYPE_SET 0 GST_SEEK_TYPE_NONE GST_CLOCK_TIME_NONE True,
        Gst_message_unref (msg0 GST_MESSAGE_EOS 1),
        Gst_element_set_state (Some 5) GST_STATE_PLAYING GST_STATE_CHANGE_ASYNC,
        Gst_element_get_bus (Some 5),
        Gst_bus_timed_pop_filtered (Bus_of (Some 5)) GST_CLOCK_TIME_NONE bus_types
          (Some (msg0 GST_MESSAGE_ERROR 1)),
        Gst_message_parse_error (msg0 GST_MESSAGE_ERROR 1),
        G_printerr ''Error received from element %s: %s\<newline>''
          [Some ''source'', Some ''Resource not found.''],
        G_printerr ''Debugging information: %s \<newline>'' [Some ''none''],
        G_clear_error,
        G_free None,
        Gst_message_unref (msg0 GST_MESSAGE_ERROR 1),
        Gst_object_unref (Bus_of (Some 5)),
        Gst_element_set_state (Some 5) GST_STATE_NULL GST_STATE_CHANGE_SUCCESS,
        Gst_object_unref (Element (Some 5)),
        Getchar]
   \<and> iterations (env0 [eos_pass True, error_pass]) = eos_pass True # [error_pass]
   \<and> prefix
       [Gst_init,
        Gst_element_factory_make ''uridecodebin'' ''source'' (Some 1),
        Gst_element_factory_make ''videoconvert'' ''videoconvert'' (Some 2),
        Gst_element_factory_make ''blurfilter'' ''blurfilter'' (Some 3),
        Gst_element_factory_make ''autovideosink'' ''videosink'' (Some 4),
        Gst_pipeline_new ''video-pipeline'' (Some 5),
        Gst_bin_add_many (Some 5) [Some 1, Some 2, Some 3, Some 4],
        Gst_element_link (Some 2) (Some 3) True,
        Gst_element_link (Some 3) (Some 4) True,
        G_object_set (Some 1) ''uri'' uri,
        G_signal_connect (Some 1) ''pad-added'' Pad_added_handler data0,
        Gst_element_set_state (Some 5) GST_STATE_PLAYING GST_STATE_CHANGE_ASYNC,
        Gst_element_get_bus (Some 5),
        Gst_bus_timed_pop_filtered (Bus_of (Some 5)) GST_CLOCK_TIME_NONE bus_types
          (Some (msg0 GST_MESSAGE_EOS 1))]
       (fst (main (env0 [eos_pass True, error_pass])))
   \<and> iterations (env0 [eos_pass True, error_pass]) = [eos_pass True] @ error_pass # []
   \<and> \<not> list_ex fatal [eos_pass True]
   \<and> \<not> state_fails error_pass
   \<and> (\<exists>before after.
         fst (main (env0 [eos_pass True, error_pass])) =
           [Gst_init,
            Gst_element_factory_make ''uridecodebin'' ''source'' (Some 1),
            Gst_element_factory_make ''videoconvert'' ''videoconvert'' (Some 2),
            Gst_element_factory_make ''blurfilter'' ''blurfilter'' (Some 3),
            Gst_element_factory_make ''autovideosink'' ''videosink'' (Some 4),
            Gst_pipeline_new ''video-pipeline'' (Some 5),
            Gst_bin_add_many (Some 5) [Some 1, Some 2, Some 3, Some 4],
            Gst_element_link (Some 2) (Some 3) True,
            Gst_element_link (Some 3) (Some 4) True,
            G_object_set (Some 1) ''uri'' uri,
            G_signal_connect (Some 1) ''pad-added'' Pad_added_handler data0] @ before
           @ [Gst_element_set_state (Some 5) GST_STATE_PLAYING GST_STATE_CHANGE_ASYNC,
              Gst_element_get_bus (Some 5),
              Gst_bus_timed_pop_filtered (Bus_of (Some 5)) GST_CLOCK_TIME_NONE bus_types
                (Some (msg0 GST_MESSAGE_ERROR 1))]
           @ after
         \<and> length (filter is_bus_wait before) = 1)
   \<and> g_str_has_prefix (pad_media_type (new_pad (pad_event video_pad GST_PAD_LINK_OK)))
       (Some ''video/x-raw'')
   \<and> Gst_pad_link video_pad (Static_pad (Some 2) ''sink'') GST_PAD_LINK_OK
       \<in> set (fst (invoke Pad_added_handler (pad_event video_pad GST_PAD_LINK_OK)
              (data_of (env0 [eos_pass True, error_pass])) False))
   \<and> snd (invoke Pad_added_handler (pad_event video_pad GST_PAD_LINK_OK)
              (data_of (env0 [eos_pass True, error_pass])) False)"
proof -
  note t = main_order
    [of "env0 [eos_pass True, error_pass]" data0 False "[]"
       "pad_event video_pad GST_PAD_LINK_OK"]
  have h1: "setup_ok (env0 [eos_pass True, error_pass])"
    by (simp add: setup_ok_def all_created_def env0_def)
  have h2: "iterations (env0 [eos_pass True, error_pass]) = eos_pass True # [error_pass]"
    "iterations (env0 [eos_pass True, error_pass]) = [eos_pass True] @ error_pass # []"
    by (simp_all add: env0_def)
  have h3: "\<not> list_ex fatal [eos_pass True]" "\<not> state_fails error_pass"
    "\<not> state_fails (eos_pass True)"
    by (simp_all add: fatal_def state_fails_def pops_type_def pass_defs pass_def msg0_def
        msg_distinct)
  have h4: "g_str_has_prefix (pad_media_type (new_pad (pad_event video_pad GST_PAD_LINK_OK)))
       (Some ''video/x-raw'')"
    by (simp add: pad_media_type_def pad_event_def video_pad_def)
  have v: "set_state_ret (eos_pass True) = GST_STATE_CHANGE_ASYNC"
    "popped (eos_pass True) = Some (msg0 GST_MESSAGE_EOS 1)"
    "set_state_ret error_pass = GST_STATE_CHANGE_ASYNC"
    "popped error_pass = Some (msg0 GST_MESSAGE_ERROR 1)"
    "made_source (env0 [eos_pass True, error_pass]) = Some 1"
    "made_videoconvert (env0 [eos_pass True, error_pass]) = Some 2"
    "made_filter (env0 [eos_pass True, error_pass]) = Some 3"
    "made_videosink (env0 [eos_pass True, error_pass]) = Some 4"
    "made_pipeline (env0 [eos_pass True, error_pass]) = Some 5"
    "data_of (env0 [eos_pass True, error_pass]) = data0"
    "new_pad (pad_event video_pad GST_PAD_LINK_OK) = video_pad"
    "link_answer (pad_event video_pad GST_PAD_LINK_OK) = GST_PAD_LINK_OK"
    "iterations (env0 [eos_pass True, error_pass]) = [eos_pass True, error_pass]"
    "null_state_ret (env0 [eos_pass True, error_pass]) = GST_STATE_CHANGE_SUCCESS"
    by (simp_all add: pass_defs pass_def env0_def data_of_def data0_def pad_event_def)
  have c1: "fst (main (env0 [eos_pass True, error_pass])) =
       [Gst_init,
        Gst_element_factory_make ''uridecodebin'' ''source'' (Some 1),
        Gst_element_factory_make ''videoconvert'' ''videoconvert'' (Some 2),
        Gst_element_factory_make ''blurfilter'' ''blurfilter'' (Some 3),
        Gst_element_factory_make ''autovideosink'' ''videosink'' (Some 4),
        Gst_pipeline_new ''video-pipeline'' (Some 5),
        Gst_bin_add_many (Some 5) [Some 1, Some 2, Some 3, Some 4],
        Gst_element_link (Some 2) (Some 3) True,
        Gst_element_link (Some 3) (Some 4) True,
        G_object_set (Some 1) ''uri'' uri,
        G_signal_connect (Some 1) ''pad-added'' Pad_added_handler data0]
        @ fst (video_playing_loop data0 False [eos_pass True, error_pass])
        @ (if snd (video_playing_loop data0 False [eos_pass True, error_pass]) = Loop_done
           then free_resources data0 GST_STATE_CHANGE_SUCCESS else [])"
    using t [THEN conjunct1] h1 by (simp add: v)
  have l: "video_playing_loop data0 False [eos_pass True, error_pass] =
       ([Gst_element_set_state (Some 5) GST_STATE_PLAYING GST_STATE_CHANGE_ASYNC,
        Gst_element_get_bus (Some 5),
        Gst_bus_timed_pop_filtered (Bus_of (Some 5)) GST_CLOCK_TIME_NONE bus_types
          (Some (msg0 GST_MESSAGE_EOS 1)),
        G_print ''End-Of-Stream reached.\<newline>'' [],
        Gst_element_seek (Some 5) 1 GST_FORMAT_TIME GST_SEEK_FLAG_FLUSH
          GST_SEEK_TYPE_SET 0 GST_SEEK_TYPE_NONE GST_CLOCK_TIME_NONE True,
        Gst_message_unref (msg0 GST_MESSAGE_EOS 1),
        Gst_element_set_state (Some 5) GST_STATE_PLAYING GST_STATE_CHANGE_ASYNC,
        Gst_element_get_bus (Some 5),
        Gst_bus_timed_pop_filtered (Bus_of (Some 5)) GST_CLOCK_TIME_NONE bus_types
          (Some (msg0 GST_MESSAGE_ERROR 1)),
        Gst_message_parse_error (msg0 GST_MESSAGE_ERROR 1),
        G_printerr ''Error received from element %s: %s\<newline>''
          [Some ''source'', Some ''Resource not found.''],
        G_printerr ''Debugging information: %s \<newline>'' [Some ''none''],
        G_clear_error,
        G_free None,
        Gst_message_unref (msg0 GST_MESSAGE_ERROR 1)],
        Loop_done)"
    by (simp add: run_defs pass_defs data0_def split_beta)
  have c1': "fst (main (env0 [eos_pass True, error_pass])) =
       [Gst_init,
        Gst_element_factory_make ''uridecodebin'' ''source'' (Some 1),
        Gst_element_factory_make ''videoconvert'' ''videoconvert'' (Some 2),
        Gst_element_factory_make ''blurfilter'' ''blurfilter'' (Some 3),
        Gst_element_factory_make ''autovideosink'' ''videosink'' (Some 4),
        Gst_pipeline_new ''video-pipeline'' (Some 5),
        Gst_bin_add_many (Some 5) [Some 1, Some 2, Some 3, Some 4],
        Gst_element_link (Some 2) (Some 3) True,
        Gst_element_link (Some 3) (Some 4) True,
        G_object_set (Some 1) ''uri'' uri,
        G_signal_connect (Some 1) ''pad-added'' Pad_added_handler data0,
        Gst_element_set_state (Some 5) GST_STATE_PLAYING GST_STATE_CHANGE_ASYNC,
        Gst_element_get_bus (Some 5),
        Gst_bus_timed_pop_filtered (Bus_of (Some 5)) GST_CLOCK_TIME_NONE bus_types
          (Some (msg0 GST_MESSAGE_EOS 1)),
        G_print ''End-Of-Stream reached.\<newline>'' [],
        Gst_element_seek (Some 5) 1 GST_FORMAT_TIME GST_SEEK_FLAG_FLUSH
          GST_SEEK_TYPE_SET 0 GST_SEEK_TYPE_NONE GST_CLOCK_TIME_NONE True,
        Gst_message_unref (msg0 GST_MESSAGE_EOS 1),
        Gst_element_set_state (Some 5) GST_STATE_PLAYING GST_STATE_CHANGE_ASYNC,
        Gst_element_get_bus (Some 5),
        Gst_bus_timed_pop_filtered (Bus_of (Some 5)) GST_CLOCK_TIME_NONE bus_types
          (Some (msg0 GST_MESSAGE_ERROR 1)),
        Gst_message_parse_error (msg0 GST_MESSAGE_ERROR 1),
        G_printerr ''Error received from element %s: %s\<newline>''
          [Some ''source'', Some ''Resource not found.''],
        G_printerr ''Debugging information: %s \<newline>'' [Some ''none''],
        G_clear_error,
        G_free None,
        Gst_message_unref (msg0 GST_MESSAGE_ERROR 1),
        Gst_object_unref (Bus_of (Some 5)),
        Gst_element_set_state (Some 5) GST_STATE_NULL GST_STATE_CHANGE_SUCCESS,
        Gst_object_unref (Element (Some 5)),
        Getchar]"
    unfolding c1 l by (simp add: free_resources_def data0_def)
  have c2: "prefix
       [Gst_init,
        Gst_element_factory_make ''uridecodebin'' ''source'' (Some 1),
        Gst_element_factory_make ''videoconvert'' ''videoconvert'' (Some 2),
        Gst_element_factory_make ''blurfilter'' ''blurfilter'' (Some 3),
        Gst_element_factory_make ''autovideosink'' ''videosink'' (Some 4),
        Gst_pipeline_new ''video-pipeline'' (Some 5),
        Gst_bin_add_many (Some 5) [Some 1, Some 2, Some 3, Some 4],
        Gst_element_link (Some 2) (Some 3) True,
        Gst_element_link (Some 3) (Some 4) True,
        G_object_set (Some 1) ''uri'' uri,
        G_signal_connect (Some 1) ''pad-added'' Pad_added_handler data0,
        Gst_element_set_state (Some 5) GST_STATE_PLAYING GST_STATE_CHANGE_ASYNC,
        Gst_element_get_bus (Some 5),
        Gst_bus_timed_pop_filtered (Bus_of (Some 5)) GST_CLOCK_TIME_NONE bus_types
          (Some (msg0 GST_MESSAGE_EOS 1))]
       (fst (main (env0 [eos_pass True, error_pass])))"
  proof -
    from t h1 h2(1) have "prefix
          ([Gst_init,
            Gst_element_factory_make ''uridecodebin'' ''source''
              (made_source (env0 [eos_pass True, error_pass])),
            Gst_element_factory_make ''videoconvert'' ''videoconvert''
              (made_videoconvert (env0 [eos_pass True, error_pass])),
            Gst_element_factory_make ''blurfilter'' ''blurfilter''
              (made_filter (env0 [eos_pass True, error_pass])),
            Gst_element_factory_make ''autovideosink'' ''videosink''
              (made_videosink (env0 [eos_pass True, error_pass])),
            Gst_pipeline_new ''video-pipeline''
              (made_pipeline (env0 [eos_pass True, error_pass])),
            Gst_bin_add_many (made_pipeline (env0 [eos_pass True, error_pass]))
              [made_source (env0 [eos_pass True, error_pass]),
               made_videoconvert (env0 [eos_pass True, error_pass]),
               made_filter (env0 [eos_pass True, error_pass]),
               made_videosink (env0 [eos_pass True, error_pass])],
            Gst_element_link (made_videoconvert (env0 [eos_pass True, error_pass]))
              (made_filter (env0 [eos_pass True, error_pass])) True,
            Gst_element_link (made_filter (env0 [eos_pass True, error_pass]))
              (made_videosink (env0 [eos_pass True, error_pass])) True,
            G_object_set (made_source (env0 [eos_pass True, error_pass])) ''uri'' uri,
            G_signal_connect (made_source (env0 [eos_pass True, error_pass])) ''pad-added''
              Pad_added_handler (data_of (env0 [eos_pass True, error_pass])),
            Gst_element_set_state (made_pipeline (env0 [eos_pass True, error_pass]))
              GST_STATE_PLAYING (set_state_ret (eos_pass True))]
           @ (if state_fails (eos_pass True) then []
              else [Gst_element_get_bus (made_pipeline (env0 [eos_pass True, error_pass])),
                    Gst_bus_timed_pop_filtered
                      (Bus_of (made_pipeline (env0 [eos_pass True, error_pass])))
                      GST_CLOCK_TIME_NONE bus_types (popped (eos_pass True))]))
          (fst (main (env0 [eos_pass True, error_pass])))"
      by blast
    then show ?thesis using h3(3) by (simp add: v)
  qed
  have c3: "\<exists>before after.
         fst (main (env0 [eos_pass True, error_pass])) =
           [Gst_init,
            Gst_element_factory_make ''uridecodebin'' ''source'' (Some 1),
            Gst_element_factory_make ''videoconvert'' ''videoconvert'' (Some 2),
            Gst_element_factory_make ''blurfilter'' ''blurfilter'' (Some 3),
            Gst_element_factory_make ''autovideosink'' ''videosink'' (Some 4),
            Gst_pipeline_new ''video-pipeline'' (Some 5),
            Gst_bin_add_many (Some 5) [Some 1, Some 2, Some 3, Some 4],
            Gst_element_link (Some 2) (Some 3) True,
            Gst_element_link (Some 3) (Some 4) True,
            G_object_set (Some 1) ''uri'' uri,
            G_signal_connect (Some 1) ''pad-added'' Pad_added_handler data0] @ before
           @ [Gst_element_set_state (Some 5) GST_STATE_PLAYING GST_STATE_CHANGE_ASYNC,
              Gst_element_get_bus (Some 5),
              Gst_bus_timed_pop_filtered (Bus_of (Some 5)) GST_CLOCK_TIME_NONE bus_types
                (Some (msg0 GST_MESSAGE_ERROR 1))]
           @ after
         \<and> length (filter is_bus_wait before) = 1"
  proof -
    from t h1 h2(2) h3(1,2) have "\<exists>before after.
           fst (main (env0 [eos_pass True, error_pass])) =
             [Gst_init,
              Gst_element_factory_make ''uridecodebin'' ''source''
                (made_source (env0 [eos_pass True, error_pass])),
              Gst_element_factory_make ''videoconvert'' ''videoconvert''
                (made_videoconvert (env0 [eos_pass True, error_pass])),
              Gst_element_factory_make ''blurfilter'' ''blurfilter''
                (made_filter (env0 [eos_pass True, error_pass])),
              Gst_element_factory_make ''autovideosink'' ''videosink''
                (made_videosink (env0 [eos_pass True, error_pass])),
              Gst_pipeline_new ''video-pipeline''
                (made_pipeline (env0 [eos_pass True, error_pass])),
              Gst_bin_add_many (made_pipeline (env0 [eos_pass True, error_pass]))
                [made_source (env0 [eos_pass True, error_pass]),
                 made_videoconvert (env0 [eos_pass True, error_pass]),
                 made_filter (env0 [eos_pass True, error_pass]),
                 made_videosink (env0 [eos_pass True, error_pass])],
              Gst_element_link (made_videoconvert (env0 [eos_pass True, error_pass]))
                (made_filter (env0 [eos_pass True, error_pass])) True,
              Gst_element_link (made_filter (env0 [eos_pass True, error_pass]))
                (made_videosink (env0 [eos_pass True, error_pass])) True,
              G_object_set (made_source (env0 [eos_pass True, error_pass])) ''uri'' uri,
              G_signal_connect (made_source (env0 [eos_pass True, error_pass])) ''pad-added''
                Pad_added_handler (data_of (env0 [eos_pass True, error_pass]))] @ before
             @ [Gst_element_set_state (made_pipeline (env0 [eos_pass True, error_pass]))
                  GST_STATE_PLAYING (set_state_ret error_pass),
                Gst_element_get_bus (made_pipeline (env0 [eos_pass True, error_pass])),
                Gst_bus_timed_pop_filtered
                  (Bus_of (made_pipeline (env0 [eos_pass True, error_pass])))
                  GST_CLOCK_TIME_NONE bus_types (popped error_pass)]
             @ after
           \<and> length (filter is_bus_wait before) = length [eos_pass True]"
      by blast
    then show ?thesis by (simp add: v)
  qed
  have c4: "Gst_pad_link video_pad (Static_pad (Some 2) ''sink'') GST_PAD_LINK_OK
       \<in> set (fst (invoke Pad_added_handler (pad_event video_pad GST_PAD_LINK_OK)
              (data_of (env0 [eos_pass True, error_pass])) False))
     \<and> snd (invoke Pad_added_handler (pad_event video_pad GST_PAD_LINK_OK)
              (data_of (env0 [eos_pass True, error_pass])) False)"
  proof -
    from t h4 have "Gst_pad_link (new_pad (pad_event video_pad GST_PAD_LINK_OK))
            (Static_pad (made_videoconvert (env0 [eos_pass True, error_pass])) ''sink'')
            (link_answer (pad_event video_pad GST_PAD_LINK_OK))
          \<in> set (fst (invoke Pad_added_handler (pad_event video_pad GST_PAD_LINK_OK)
                 (data_of (env0 [eos_pass True, error_pass])) False))
        \<and> snd (invoke Pad_added_handler (pad_event video_pad GST_PAD_LINK_OK)
                 (data_of (env0 [eos_pass True, error_pass])) False)
            = (link_answer (pad_event video_pad GST_PAD_LINK_OK) = GST_PAD_LINK_OK)"
      by blast
    then show ?thesis by (simp only: v(6,11,12) simp_thms)
  qed
  show ?thesis using h1 h2 h3(1,2) h4 c1' c2 c3 c4 by blast
qed

text \<open>
  Claim C10, as the code has it. The switch sets \<open>terminate\<close> to true for an error
  message, to false for an end-of-stream message, and leaves it as it was for any other
  message. After a pass whose state change did not fail and that received no error
  message, the loop runs again, and a pass begins by setting the pipeline to playing. The
  loop is left through its test only after a bus wait returned an error message; the one
  other way out of the loop is \<open>return -1\<close> after a failed state change to playing. As
  long as no pass has such a failure or an error message, the loop is not left.
\<close>

theorem loop_left_on_error_or_failed_play:
  "snd (parse_message data m sk t) =
     (if msg_type m = GST_MESSAGE_ERROR then True
      else if msg_type m = GST_MESSAGE_EOS then False else t)
   \<and> (\<not> state_fails it \<and> \<not> pops_type GST_MESSAGE_ERROR it \<longrightarrow>
        video_playing_loop data False (it # its) =
          (fst (loop_body data False it) @ fst (video_playing_loop data False its),
           snd (video_playing_loop data False its)))
   \<and> hd (fst (video_playing_loop data False (it # its))) =
        Gst_element_set_state (pipeline data) GST_STATE_PLAYING (set_state_ret it)
   \<and> (snd (video_playing_loop data False its) = Loop_done \<longrightarrow>
        list_ex (pop_returns GST_MESSAGE_ERROR) (fst (video_playing_loop data False its)))
   \<and> (\<forall>c. snd (video_playing_loop data False its) = Loop_return c \<longrightarrow>
        c = - 1 \<and> list_ex is_failed_play (fst (video_playing_loop data False its)))
   \<and> (snd (video_playing_loop data False its) = Loop_pending) = (find fatal its = None)"
  using parse_terminate loop_again loop_hd loop_done_error loop_return_failed
  by (auto simp: loop_exit_find split: option.split)

theorem loop_left_on_error_or_failed_play_witness:
  "\<not> state_fails (eos_pass True) \<and> \<not> pops_type GST_MESSAGE_ERROR (eos_pass True)
   \<and> video_playing_loop data0 False [eos_pass True, error_pass] =
       (fst (loop_body data0 False (eos_pass True))
          @ fst (video_playing_loop data0 False [error_pass]),
        snd (video_playing_loop data0 False [error_pass]))
   \<and> snd (video_playing_loop data0 False [eos_pass True, error_pass]) = Loop_done
   \<and> list_ex (pop_returns GST_MESSAGE_ERROR)
       (fst (video_playing_loop data0 False [eos_pass True, error_pass]))
   \<and> snd (video_playing_loop data0 False [eos_pass True, failed_pass]) = Loop_return (- 1)
   \<and> list_ex is_failed_play
       (fst (video_playing_loop data0 False [eos_pass True, failed_pass]))"
proof -
  have h1: "\<not> state_fails (eos_pass True) \<and> \<not> pops_type GST_MESSAGE_ERROR (eos_pass True)"
    by (simp add: state_fails_def pops_type_def pass_defs pass_def msg0_def msg_distinct)
  have h2: "snd (video_playing_loop data0 False [eos_pass True, error_pass]) = Loop_done"
    by (simp add: run_defs pass_defs split_beta)
  have h3: "snd (video_playing_loop data0 False [eos_pass True, failed_pass])
      = Loop_return (- 1)"
    by (simp add: run_defs pass_defs split_beta)
  note t1 = loop_left_on_error_or_failed_play [of data0 _ _ _ "eos_pass True" "[error_pass]"]
  note t2 = loop_left_on_error_or_failed_play [of data0 _ _ _ _ "[eos_pass True, error_pass]"]
  note t3 = loop_left_on_error_or_failed_play [of data0 _ _ _ _ "[eos_pass True, failed_pass]"]
  have c1: "video_playing_loop data0 False [eos_pass True, error_pass] =
       (fst (loop_body data0 False (eos_pass True))
          @ fst (video_playing_loop data0 False [error_pass]),
        snd (video_playing_loop data0 False [error_pass]))"
    using t1 h1 by blast
  have c2: "list_ex (pop_returns GST_MESSAGE_ERROR)
       (fst (video_playing_loop data0 False [eos_pass True, error_pass]))"
    using t2 h2 by blast
  have c3: "list_ex is_failed_play
       (fst (video_playing_loop data0 False [eos_pass True, failed_pass]))"
    using t3 h3 by blast
  show ?thesis using h1 h2 h3 c1 c2 c3 by blast
qed

text \<open>
  Claim C10 as worded (the loop never exits except after an error bus message) fails on
  the run whose first state change to playing fails: the loop is left by \<open>return -1\<close>
  and no bus wait was made.
\<close>

theorem loop_exit_without_error_counterexample:
  "snd (video_playing_loop data0 False [pass GST_STATE_CHANGE_FAILURE None True])
     = Loop_return (- 1)
   \<and> fst (video_playing_loop data0 False [pass GST_STATE_CHANGE_FAILURE None True]) =
       [Gst_element_set_state (Some 5) GST_STATE_PLAYING GST_STATE_CHANGE_FAILURE,
        G_printerr ''Unable to set pipeline to the playing state.\<newline>'' [],
        Gst_object_unref (Element (Some 5)),
        Getchar]"
  by (simp add: loop_body_def pass_def data0_def)

end
